theory Spec2Isabelle
  imports Complex_Main
begin

section \<open>Shrink-wrapping of dead library calls: the data model\<close>

text \<open>
  The pass of \<^verbatim>\<open>lib/Transforms/Utils/LibCallsShrinkWrap.cpp\<close> guards a call to a
  mathematical library function whose result is unused by a condition on its arguments
  under which the call can set \<^verbatim>\<open>errno\<close>. This theory embeds the pass: the candidate
  check, the synthesis of the condition for each family of functions, the rewrite of the
  block and the driver.

  The library functions the pass names. \<^verbatim>\<open>LibFunc::acos\<close> is written \<open>LibFunc_acos\<close>.
  The enumeration \<^verbatim>\<open>LibFunc::Func\<close> is declared outside this file; \<open>LibFunc_other n\<close>
  is the function with the integer value \<open>n\<close> among those the pass does not name.
  The first function of the enumeration, the one whose value is \<open>0\<close>, is taken to be
  none of the functions the pass names: it is \<open>LibFunc_other 0\<close>.
\<close>

datatype Func =
    LibFunc_acos | LibFunc_acosf | LibFunc_acosl
  | LibFunc_asin | LibFunc_asinf | LibFunc_asinl
  | LibFunc_cos | LibFunc_cosf | LibFunc_cosl
  | LibFunc_sin | LibFunc_sinf | LibFunc_sinl
  | LibFunc_acosh | LibFunc_acoshf | LibFunc_acoshl
  | LibFunc_sqrt | LibFunc_sqrtf | LibFunc_sqrtl
  | LibFunc_cosh | LibFunc_coshf | LibFunc_coshl
  | LibFunc_exp | LibFunc_expf | LibFunc_expl
  | LibFunc_exp10 | LibFunc_exp10f | LibFunc_exp10l
  | LibFunc_exp2 | LibFunc_exp2f | LibFunc_exp2l
  | LibFunc_sinh | LibFunc_sinhf | LibFunc_sinhl
  | LibFunc_expm1 | LibFunc_expm1f | LibFunc_expm1l
  | LibFunc_atanh | LibFunc_atanhf | LibFunc_atanhl
  | LibFunc_log | LibFunc_logf | LibFunc_logl
  | LibFunc_log10 | LibFunc_log10f | LibFunc_log10l
  | LibFunc_log2 | LibFunc_log2f | LibFunc_log2l
  | LibFunc_logb | LibFunc_logbf | LibFunc_logbl
  | LibFunc_log1p | LibFunc_log1pf | LibFunc_log1pl
  | LibFunc_pow | LibFunc_powf | LibFunc_powl
  | LibFunc_other nat

text \<open>
  Types: the three floating-point types the pass supports, and \<open>OtherTy n\<close> for any
  other type (half, fp128, ppc\_fp128, integers, pointers).
\<close>

datatype Type = FloatTy | DoubleTy | X86_FP80Ty | OtherTy nat

text \<open>
  A floating-point value, by category as \<^verbatim>\<open>APFloat\<close> has it. The flag of an infinity
  and of a zero is the sign bit (\<open>True\<close> is negative); a finite non-zero value carries
  its sign itself. Values of the three precisions are rationals, and so are all the
  constants of the pass.
\<close>

datatype APFloat = fcNaN | fcInfinity bool | fcZero bool | fcNormal rat

datatype ConstantFP = ConstantFP Type APFloat

text \<open>
  The instruction behind a value: \<^verbatim>\<open>uitofp\<close> and \<^verbatim>\<open>sitofp\<close> carry the width in bits of
  their integer operand (\<^verbatim>\<open>I->getOperand(0)->getType()->getPrimitiveSizeInBits()\<close>).
\<close>

datatype Opcode = UIToFP nat | SIToFP nat | OtherOpcode nat

text \<open>
  A value is a floating constant, the result of an instruction (its address, opcode and
  type), or anything else (a function argument, a global, another constant).
\<close>

datatype Value =
    ConstantFPValue ConstantFP
  | InstructionValue nat Opcode Type
  | OtherValue nat Type

fun constType :: "ConstantFP \<Rightarrow> Type" where
  "constType (ConstantFP ty v) = ty"

fun getValueAPF :: "ConstantFP \<Rightarrow> APFloat" where
  "getValueAPF (ConstantFP ty v) = v"

fun getType :: "Value \<Rightarrow> Type" where
  "getType (ConstantFPValue c) = constType c"
| "getType (InstructionValue a opc ty) = ty"
| "getType (OtherValue a ty) = ty"

text \<open>
  A call instruction: its address (the \<^verbatim>\<open>CallInst *\<close> the work list holds), the
  \<^verbatim>\<open>nobuiltin\<close> mark, the number of uses of its result, the called function when the
  call is direct (\<^verbatim>\<open>getCalledFunction()\<close> is null otherwise) and the argument operands.
\<close>

record CallInst =
  ci_addr :: nat
  isNoBuiltin :: bool
  numUses :: nat
  getCalledFunction :: "string option"
  argOperands :: "Value list"

definition use_empty :: "CallInst \<Rightarrow> bool" where
  "use_empty CI = (numUses CI = 0)"

text \<open>
  Failures are values. The first four are the checks of this file: the two assertions of
  \<^verbatim>\<open>perform\<close>, \<^verbatim>\<open>llvm_unreachable\<close> in the range generators, and the assertions on an
  empty condition in \<^verbatim>\<open>performCallErrors\<close> and \<^verbatim>\<open>shrinkWrapCI\<close>. \<open>OutOfBounds\<close> is the
  failure of \<^verbatim>\<open>CI.getArgOperand(i)\<close> on a call with \<open>i\<close> arguments or fewer: the
  accessor asserts that the index is below the number of arguments.
  \<open>UninitializedFunc\<close> is the read of the local variable \<^verbatim>\<open>Func\<close> of \<^verbatim>\<open>perform\<close> when
  \<^verbatim>\<open>getLibFunc\<close> has not set it.
\<close>

datatype error =
    AssertCallee
  | AssertFunc
  | Unreachable
  | AssertCond
  | OutOfBounds
  | UninitializedFunc

definition getArgOperand :: "CallInst \<Rightarrow> nat \<Rightarrow> error + Value" where
  "getArgOperand CI i =
     (if i < length (argOperands CI) then Inr (argOperands CI ! i) else Inl OutOfBounds)"

text \<open>
  The library information of the target, an argument of the pass.
  \<^verbatim>\<open>TLI.getLibFunc(Callee, Func)\<close> returns whether the callee is a library function and,
  when it is, sets \<^verbatim>\<open>Func\<close>: \<open>getLibFunc\<close> yields \<open>Some\<close> of the function then, and
  \<open>None\<close> when it returns false and leaves \<^verbatim>\<open>Func\<close> as it was. \<^verbatim>\<open>TLI.has(Func)\<close> is
  \<open>has\<close>.
\<close>

record TargetLibraryInfo =
  getLibFunc :: "string \<Rightarrow> Func option"
  has :: "Func \<Rightarrow> bool"

text \<open>The three command-line toggles, all true by default.\<close>

record Options =
  LibCallsShrinkWrapDoDomainError :: bool
  LibCallsShrinkWrapDoRangeError :: bool
  LibCallsShrinkWrapDoPoleError :: bool

definition default_options :: Options where
  "default_options =
     \<lparr>LibCallsShrinkWrapDoDomainError = True,
      LibCallsShrinkWrapDoRangeError = True,
      LibCallsShrinkWrapDoPoleError = True\<rparr>"

subsection \<open>Conditions\<close>

text \<open>
  The comparison predicates the pass uses, and the condition it asks the builder for:
  a comparison of a value with a constant, or the disjunction of two conditions. (The
  builder may fold a comparison whose operands are both constants; the folded condition
  has the same value.)
\<close>

datatype Predicate = FCMP_OEQ | FCMP_OGT | FCMP_OGE | FCMP_OLT | FCMP_OLE

datatype Cond = FCmp Predicate Value ConstantFP | Or Cond Cond

text \<open>
  Modelled from the spec: the comparisons are ordered floating-point comparisons, false
  when an operand is NaN; both zeros are equal. \<open>apf_key\<close> places a value that is
  not NaN on the extended rational line.
\<close>

fun apf_key :: "APFloat \<Rightarrow> (int \<times> rat) option" where
  "apf_key fcNaN = None"
| "apf_key (fcInfinity neg) = Some (if neg then - 1 else 1, 0)"
| "apf_key (fcZero neg) = Some (0, 0)"
| "apf_key (fcNormal q) = Some (0, q)"

fun key_less :: "int \<times> rat \<Rightarrow> int \<times> rat \<Rightarrow> bool" where
  "key_less (i, x) (j, y) = (i < j \<or> (i = j \<and> x < y))"

fun key_cmp :: "Predicate \<Rightarrow> int \<times> rat \<Rightarrow> int \<times> rat \<Rightarrow> bool" where
  "key_cmp FCMP_OEQ a b = (a = b)"
| "key_cmp FCMP_OGT a b = key_less b a"
| "key_cmp FCMP_OGE a b = (key_less b a \<or> a = b)"
| "key_cmp FCMP_OLT a b = key_less a b"
| "key_cmp FCMP_OLE a b = (key_less a b \<or> a = b)"

definition fcmp :: "Predicate \<Rightarrow> APFloat \<Rightarrow> APFloat \<Rightarrow> bool" where
  "fcmp p x y =
     (case apf_key x of
        None \<Rightarrow> False
      | Some a \<Rightarrow> (case apf_key y of None \<Rightarrow> False | Some b \<Rightarrow> key_cmp p a b))"

text \<open>
  The value of a condition at run time: \<open>\<rho>\<close> gives the values that are not constants.
\<close>

fun valueOf :: "(Value \<Rightarrow> APFloat) \<Rightarrow> Value \<Rightarrow> APFloat" where
  "valueOf \<rho> (ConstantFPValue c) = getValueAPF c"
| "valueOf \<rho> (InstructionValue a opc ty) = \<rho> (InstructionValue a opc ty)"
| "valueOf \<rho> (OtherValue a ty) = \<rho> (OtherValue a ty)"

fun evalCond :: "(Value \<Rightarrow> APFloat) \<Rightarrow> Cond \<Rightarrow> bool" where
  "evalCond \<rho> (FCmp p v c) = fcmp p (valueOf \<rho> v) (getValueAPF c)"
| "evalCond \<rho> (Or c d) = (evalCond \<rho> c \<or> evalCond \<rho> d)"

text \<open>
  \<^verbatim>\<open>ConstantExpr::getFPExtend\<close> of a constant: the constant at the wider type. Widening
  is exact, the value is the same.
\<close>

fun getFPExtend :: "ConstantFP \<Rightarrow> Type \<Rightarrow> ConstantFP" where
  "getFPExtend (ConstantFP ty v) ty' = ConstantFP ty' v"

text \<open>
  \<^verbatim>\<open>createCond(BBBuilder, Arg, Cmp, Val)\<close>: the \<^verbatim>\<open>float\<close> literal becomes a constant of
  type float, widened to the type of the argument when that is not float.
\<close>

definition createCond_builder :: "Value \<Rightarrow> Predicate \<Rightarrow> APFloat \<Rightarrow> Cond" where
  "createCond_builder ArgV Cmp Val =
     (let V = ConstantFP FloatTy Val;
          V = (if getType ArgV \<noteq> FloatTy then getFPExtend V (getType ArgV) else V)
      in FCmp Cmp ArgV V)"

text \<open>\<^verbatim>\<open>createCond(CI, Cmp, Val)\<close>: a single condition on the first argument.\<close>

definition createCond :: "CallInst \<Rightarrow> Predicate \<Rightarrow> APFloat \<Rightarrow> error + Cond" where
  "createCond CI Cmp Val =
     (case getArgOperand CI 0 of
        Inl e \<Rightarrow> Inl e
      | Inr ArgV \<Rightarrow> Inr (createCond_builder ArgV Cmp Val))"

text \<open>\<^verbatim>\<open>createOrCond\<close>: the second comparison is built first, the result is \<open>Cond1 or Cond2\<close>.\<close>

definition createOrCond ::
  "CallInst \<Rightarrow> Predicate \<Rightarrow> APFloat \<Rightarrow> Predicate \<Rightarrow> APFloat \<Rightarrow> error + Cond" where
  "createOrCond CI Cmp Val Cmp2 Val2 =
     (case getArgOperand CI 0 of
        Inl e \<Rightarrow> Inl e
      | Inr ArgV \<Rightarrow>
          (let Cond2 = createCond_builder ArgV Cmp2 Val2;
               Cond1 = createCond_builder ArgV Cmp Val
           in Inr (Or Cond1 Cond2)))"

subsection \<open>Function bodies and the rewrite of a block\<close>

text \<open>
  A function body is its list of basic blocks. A block has an identity (\<open>bb_label\<close>,
  what a branch names), a name, its instructions and its terminator. Of the
  instructions only the calls matter to the pass; every instruction has an address.
  \<open>BranchWeights t f\<close> is the metadata \<^verbatim>\<open>createBranchWeights(t, f)\<close> builds: the
  weight of the true successor, then that of the false successor.
\<close>

type_synonym label = nat

datatype MDNode = BranchWeights nat nat

datatype Instruction = Call CallInst | OtherInstruction nat

datatype TerminatorInst =
    Br label
  | CondBr Cond label label "MDNode option"
  | UnreachableInst
  | OtherTerminator nat

record BasicBlock =
  bb_label :: label
  bb_name :: string
  bb_insts :: "Instruction list"
  bb_term :: TerminatorInst

record Function =
  hasOptimizeForSize :: bool
  blocks :: "BasicBlock list"

fun instAddr :: "Instruction \<Rightarrow> nat" where
  "instAddr (Call CI) = ci_addr CI"
| "instAddr (OtherInstruction a) = a"

definition createBranchWeights :: "nat \<Rightarrow> nat \<Rightarrow> MDNode" where
  "createBranchWeights TrueWeight FalseWeight = BranchWeights TrueWeight FalseWeight"

text \<open>A label no block of the function has: the identity of a new block.\<close>

definition freshLabel :: "BasicBlock list \<Rightarrow> label" where
  "freshLabel Bs = Suc (foldr max (map bb_label Bs) 0)"

text \<open>The instructions before the one at address \<open>a\<close>, and those from it on.\<close>

fun splitBefore :: "nat \<Rightarrow> Instruction list \<Rightarrow> (Instruction list \<times> Instruction list) option" where
  "splitBefore a [] = None"
| "splitBefore a (i # is) =
     (if instAddr i = a then Some ([], i # is)
      else (case splitBefore a is of
              None \<Rightarrow> None
            | Some (xs, ys) \<Rightarrow> Some (i # xs, ys)))"

text \<open>
  Modelled from the spec: \<^verbatim>\<open>SplitBlockAndInsertIfThen(Cond, SplitBefore, Unreachable,
  BranchWeights)\<close> of \<^verbatim>\<open>BasicBlockUtils\<close> is not in this file. It splits the block of the
  instruction before it: the head keeps the instructions before and ends in a new
  conditional branch on the condition, carrying the weights, to a new empty block
  (taken when the condition is true) and to the tail; the tail holds the instruction and
  what follows it, with the old terminator; the new block branches to the tail (or is
  unreachable). The new blocks stand after the head, the new block first. The result is
  the new block, where the new terminator is, and the new body.
\<close>

fun splitBlocks ::
  "Cond \<Rightarrow> nat \<Rightarrow> bool \<Rightarrow> MDNode option \<Rightarrow> label \<Rightarrow> label \<Rightarrow> BasicBlock list \<Rightarrow> BasicBlock list" where
  "splitBlocks c a unr w thenL tailL [] = []"
| "splitBlocks c a unr w thenL tailL (B # Bs) =
     (case splitBefore a (bb_insts B) of
        None \<Rightarrow> B # splitBlocks c a unr w thenL tailL Bs
      | Some (xs, ys) \<Rightarrow>
          B\<lparr>bb_insts := xs, bb_term := CondBr c thenL tailL w\<rparr>
          # \<lparr>bb_label = thenL, bb_name = [], bb_insts = [],
              bb_term = (if unr then UnreachableInst else Br tailL)\<rparr>
          # \<lparr>bb_label = tailL, bb_name = bb_name B @ ''.split'', bb_insts = ys,
              bb_term = bb_term B\<rparr>
          # Bs)"

definition SplitBlockAndInsertIfThen ::
  "Cond \<Rightarrow> CallInst \<Rightarrow> bool \<Rightarrow> MDNode option \<Rightarrow> BasicBlock list \<Rightarrow> label \<times> BasicBlock list" where
  "SplitBlockAndInsertIfThen c SplitBefore unr w Bs =
     (let tailL = freshLabel Bs; thenL = Suc tailL
      in (thenL, splitBlocks c (ci_addr SplitBefore) unr w thenL tailL Bs))"

definition setName :: "label \<Rightarrow> string \<Rightarrow> BasicBlock list \<Rightarrow> BasicBlock list" where
  "setName l n Bs = map (\<lambda>B. if bb_label B = l then B\<lparr>bb_name := n\<rparr> else B) Bs"

fun getSingleSuccessor :: "label \<Rightarrow> BasicBlock list \<Rightarrow> label option" where
  "getSingleSuccessor l [] = None"
| "getSingleSuccessor l (B # Bs) =
     (if bb_label B = l then (case bb_term B of Br t \<Rightarrow> Some t | _ \<Rightarrow> None)
      else getSingleSuccessor l Bs)"

text \<open>\<^verbatim>\<open>CI->removeFromParent()\<close>: addresses are unique, the instruction at it goes.\<close>

definition removeFromParent :: "CallInst \<Rightarrow> BasicBlock list \<Rightarrow> BasicBlock list" where
  "removeFromParent CI Bs =
     map (\<lambda>B. B\<lparr>bb_insts := filter (\<lambda>i. instAddr i \<noteq> ci_addr CI) (bb_insts B)\<rparr>) Bs"

text \<open>
  \<^verbatim>\<open>CallBB->getInstList().insert(CallBB->getFirstInsertionPt(), CI)\<close>: the new block has
  no phi node, the call goes to its front.
\<close>

definition insertAtFirstInsertionPt :: "label \<Rightarrow> Instruction \<Rightarrow> BasicBlock list \<Rightarrow> BasicBlock list" where
  "insertAtFirstInsertionPt l i Bs =
     map (\<lambda>B. if bb_label B = l then B\<lparr>bb_insts := i # bb_insts B\<rparr> else B) Bs"

text \<open>
  \<^verbatim>\<open>shrinkWrapCI\<close>: the assertion on the condition, the branch weights 1 and 2000, the
  split, the names of the two blocks, the move of the call into the guarded block.
  A call of the work list is in a block of the function; for a call that is in none
  \<open>splitBlocks\<close> leaves the body as it is. A name that is already taken in the
  function gets a numeric suffix in LLVM; names are kept as given here.
\<close>

definition shrinkWrapCI :: "CallInst \<Rightarrow> Cond option \<Rightarrow> BasicBlock list \<Rightarrow> error + BasicBlock list" where
  "shrinkWrapCI CI Cond Bs =
     (case Cond of
        None \<Rightarrow> Inl AssertCond
      | Some c \<Rightarrow>
          (let Weights = createBranchWeights 1 2000;
               (CallBB, Bs1) = SplitBlockAndInsertIfThen c CI False (Some Weights) Bs;
               Bs2 = setName CallBB ''cdce.call'' Bs1;
               Bs3 = (case getSingleSuccessor CallBB Bs2 of
                        None \<Rightarrow> Bs2
                      | Some S \<Rightarrow> setName S ''cdce.end'' Bs2);
               Bs4 = removeFromParent CI Bs3
           in Inr (insertAtFirstInsertionPt CallBB (Call CI) Bs4)))"

subsection \<open>Synthesis of the condition\<close>

text \<open>
  Each \<^verbatim>\<open>performCall...\<close> function is a \<^verbatim>\<open>switch\<close> that either returns false
  (\<open>ReturnFalse\<close>) or leaves the \<^verbatim>\<open>switch\<close> with the local variable \<^verbatim>\<open>Cond\<close> set
  (\<open>Break Cond\<close>), followed by the call of \<^verbatim>\<open>shrinkWrapCI\<close>. The statistics counters
  are not modelled.
\<close>

datatype SwitchResult = ReturnFalse | Break "Cond option"

definition break_with :: "error + Cond \<Rightarrow> error + SwitchResult" where
  "break_with r = (case r of Inl e \<Rightarrow> Inl e | Inr c \<Rightarrow> Inr (Break (Some c)))"

definition wrap_and_return_true ::
  "CallInst \<Rightarrow> Cond option \<Rightarrow> BasicBlock list \<Rightarrow> error + bool \<times> BasicBlock list" where
  "wrap_and_return_true CI Cond Bs =
     (case shrinkWrapCI CI Cond Bs of Inl e \<Rightarrow> Inl e | Inr Bs' \<Rightarrow> Inr (True, Bs'))"

definition performCallDomainErrorOnly_switch :: "CallInst \<Rightarrow> Func \<Rightarrow> error + SwitchResult" where
  "performCallDomainErrorOnly_switch CI Fn =
     (if Fn \<in> {LibFunc_acos, LibFunc_acosf, LibFunc_acosl,
                  LibFunc_asin, LibFunc_asinf, LibFunc_asinl}
      then break_with (createOrCond CI FCMP_OLT (fcNormal (- 1)) FCMP_OGT (fcNormal 1))
      else if Fn \<in> {LibFunc_cos, LibFunc_cosf, LibFunc_cosl,
                       LibFunc_sin, LibFunc_sinf, LibFunc_sinl}
      then break_with (createOrCond CI FCMP_OEQ (fcInfinity False) FCMP_OEQ (fcInfinity True))
      else if Fn \<in> {LibFunc_acosh, LibFunc_acoshf, LibFunc_acoshl}
      then break_with (createCond CI FCMP_OLT (fcNormal 1))
      else if Fn \<in> {LibFunc_sqrt, LibFunc_sqrtf, LibFunc_sqrtl}
      then break_with (createCond CI FCMP_OLT (fcZero False))
      else Inr ReturnFalse)"

definition performCallDomainErrorOnly ::
  "CallInst \<Rightarrow> Func \<Rightarrow> BasicBlock list \<Rightarrow> error + bool \<times> BasicBlock list" where
  "performCallDomainErrorOnly CI Fn Bs =
     (case performCallDomainErrorOnly_switch CI Fn of
        Inl e \<Rightarrow> Inl e
      | Inr ReturnFalse \<Rightarrow> Inr (False, Bs)
      | Inr (Break Cond) \<Rightarrow> wrap_and_return_true CI Cond Bs)"

text \<open>
  \<^verbatim>\<open>generateOneRangeCond\<close> and \<^verbatim>\<open>generateTwoRangeCond\<close>: the bound or bounds by
  function, \<^verbatim>\<open>llvm_unreachable\<close> for any other function.
\<close>

definition generateOneRangeCond :: "CallInst \<Rightarrow> Func \<Rightarrow> error + Cond" where
  "generateOneRangeCond CI Fn =
     (case (if Fn = LibFunc_expm1 then Some 709
            else if Fn = LibFunc_expm1f then Some 88
            else if Fn = LibFunc_expm1l then Some 11356
            else None) of
        None \<Rightarrow> Inl Unreachable
      | Some UpperBound \<Rightarrow> createCond CI FCMP_OGT (fcNormal UpperBound))"

definition generateTwoRangeCond :: "CallInst \<Rightarrow> Func \<Rightarrow> error + Cond" where
  "generateTwoRangeCond CI Fn =
     (case (if Fn \<in> {LibFunc_cosh, LibFunc_sinh} then Some (- 710, 710)
            else if Fn \<in> {LibFunc_coshf, LibFunc_sinhf} then Some (- 89, 89)
            else if Fn \<in> {LibFunc_coshl, LibFunc_sinhl} then Some (- 11357, 11357)
            else if Fn = LibFunc_exp then Some (- 745, 709)
            else if Fn = LibFunc_expf then Some (- 103, 88)
            else if Fn = LibFunc_expl then Some (- 11399, 11356)
            else if Fn = LibFunc_exp10 then Some (- 323, 308)
            else if Fn = LibFunc_exp10f then Some (- 45, 38)
            else if Fn = LibFunc_exp10l then Some (- 4950, 4932)
            else if Fn = LibFunc_exp2 then Some (- 1074, 1023)
            else if Fn = LibFunc_exp2f then Some (- 149, 127)
            else if Fn = LibFunc_exp2l then Some (- 16445, 11383)
            else None) of
        None \<Rightarrow> Inl Unreachable
      | Some (LowerBound, UpperBound) \<Rightarrow>
          createOrCond CI FCMP_OGT (fcNormal UpperBound) FCMP_OLT (fcNormal LowerBound))"

definition performCallRangeErrorOnly_switch :: "CallInst \<Rightarrow> Func \<Rightarrow> error + SwitchResult" where
  "performCallRangeErrorOnly_switch CI Fn =
     (if Fn \<in> {LibFunc_cosh, LibFunc_coshf, LibFunc_coshl,
                 LibFunc_exp, LibFunc_expf, LibFunc_expl,
                 LibFunc_exp10, LibFunc_exp10f, LibFunc_exp10l,
                 LibFunc_exp2, LibFunc_exp2f, LibFunc_exp2l,
                 LibFunc_sinh, LibFunc_sinhf, LibFunc_sinhl}
      then break_with (generateTwoRangeCond CI Fn)
      else if Fn \<in> {LibFunc_expm1, LibFunc_expm1f, LibFunc_expm1l}
      then break_with (generateOneRangeCond CI Fn)
      else Inr ReturnFalse)"

definition performCallRangeErrorOnly ::
  "CallInst \<Rightarrow> Func \<Rightarrow> BasicBlock list \<Rightarrow> error + bool \<times> BasicBlock list" where
  "performCallRangeErrorOnly CI Fn Bs =
     (case performCallRangeErrorOnly_switch CI Fn of
        Inl e \<Rightarrow> Inl e
      | Inr ReturnFalse \<Rightarrow> Inr (False, Bs)
      | Inr (Break Cond) \<Rightarrow> wrap_and_return_true CI Cond Bs)"

text \<open>
  \<^verbatim>\<open>generateCondForPow\<close>; \<open>None\<close> is the null pointer it returns when it does not
  handle the call. \<^verbatim>\<open>D < 1.0f\<close> and \<^verbatim>\<open>D > 255\<close> are comparisons of doubles: both are
  false when \<open>D\<close> is NaN. The zero of the second comparison is widened to the type of
  the exponent, as the source has it.
\<close>

definition convertToDouble :: "APFloat \<Rightarrow> APFloat" where
  "convertToDouble v = v"

definition pow_int_cond :: "Value \<Rightarrow> Value \<Rightarrow> nat \<Rightarrow> Cond option" where
  "pow_int_cond Base Exp BW =
     (case (if BW = 8 then Some 128
            else if BW = 16 then Some 64
            else if BW = 32 then Some 32
            else None) of
        None \<Rightarrow> None
      | Some UpperV \<Rightarrow>
          (let V = ConstantFP FloatTy (fcNormal UpperV);
               V0 = ConstantFP FloatTy (fcZero False);
               V = (if getType Exp \<noteq> FloatTy then getFPExtend V (getType Exp) else V);
               V0 = (if getType Base \<noteq> FloatTy then getFPExtend V0 (getType Exp) else V0);
               Cond = FCmp FCMP_OGT Exp V;
               Cond0 = FCmp FCMP_OLE Base V0
           in Some (Or Cond0 Cond)))"

definition generateCondForPow :: "CallInst \<Rightarrow> Func \<Rightarrow> error + Cond option" where
  "generateCondForPow CI Fn =
     (if Fn \<noteq> LibFunc_pow then Inr None
      else
        (case getArgOperand CI 0 of
           Inl e \<Rightarrow> Inl e
         | Inr Base \<Rightarrow>
             (case getArgOperand CI 1 of
                Inl e \<Rightarrow> Inl e
              | Inr Exp \<Rightarrow>
                  (case Base of
                     ConstantFPValue CF \<Rightarrow>
                       (let D = convertToDouble (getValueAPF CF)
                        in if fcmp FCMP_OLT D (fcNormal 1) \<or> fcmp FCMP_OGT D (fcNormal 255)
                           then Inr None
                           else
                             (let V = ConstantFP FloatTy (fcNormal 127);
                                  V = (if getType Exp \<noteq> FloatTy
                                       then getFPExtend V (getType Exp) else V)
                              in Inr (Some (FCmp FCMP_OGT Exp V))))
                   | InstructionValue a Opc ty \<Rightarrow>
                       (case Opc of
                          UIToFP BW \<Rightarrow> Inr (pow_int_cond Base Exp BW)
                        | SIToFP BW \<Rightarrow> Inr (pow_int_cond Base Exp BW)
                        | OtherOpcode n \<Rightarrow> Inr None)
                   | OtherValue a ty \<Rightarrow> Inr None))))"

definition performCallErrors_switch :: "Options \<Rightarrow> CallInst \<Rightarrow> Func \<Rightarrow> error + SwitchResult" where
  "performCallErrors_switch opts CI Fn =
     (if Fn \<in> {LibFunc_atanh, LibFunc_atanhf, LibFunc_atanhl}
      then (if \<not> LibCallsShrinkWrapDoDomainError opts \<or> \<not> LibCallsShrinkWrapDoPoleError opts
            then Inr ReturnFalse
            else break_with (createOrCond CI FCMP_OLE (fcNormal (- 1)) FCMP_OGE (fcNormal 1)))
      else if Fn \<in> {LibFunc_log, LibFunc_logf, LibFunc_logl,
                       LibFunc_log10, LibFunc_log10f, LibFunc_log10l,
                       LibFunc_log2, LibFunc_log2f, LibFunc_log2l,
                       LibFunc_logb, LibFunc_logbf, LibFunc_logbl}
      then (if \<not> LibCallsShrinkWrapDoDomainError opts \<or> \<not> LibCallsShrinkWrapDoPoleError opts
            then Inr ReturnFalse
            else break_with (createCond CI FCMP_OLE (fcZero False)))
      else if Fn \<in> {LibFunc_log1p, LibFunc_log1pf, LibFunc_log1pl}
      then (if \<not> LibCallsShrinkWrapDoDomainError opts \<or> \<not> LibCallsShrinkWrapDoPoleError opts
            then Inr ReturnFalse
            else break_with (createCond CI FCMP_OLE (fcNormal (- 1))))
      else if Fn \<in> {LibFunc_pow, LibFunc_powf, LibFunc_powl}
      then (if \<not> LibCallsShrinkWrapDoDomainError opts \<or> \<not> LibCallsShrinkWrapDoPoleError opts
               \<or> \<not> LibCallsShrinkWrapDoRangeError opts
            then Inr ReturnFalse
            else (case generateCondForPow CI Fn of
                    Inl e \<Rightarrow> Inl e
                  | Inr None \<Rightarrow> Inr ReturnFalse
                  | Inr (Some c) \<Rightarrow> Inr (Break (Some c))))
      else Inr ReturnFalse)"

definition performCallErrors ::
  "Options \<Rightarrow> CallInst \<Rightarrow> Func \<Rightarrow> BasicBlock list \<Rightarrow> error + bool \<times> BasicBlock list" where
  "performCallErrors opts CI Fn Bs =
     (case performCallErrors_switch opts CI Fn of
        Inl e \<Rightarrow> Inl e
      | Inr ReturnFalse \<Rightarrow> Inr (False, Bs)
      | Inr (Break None) \<Rightarrow> Inl AssertCond
      | Inr (Break (Some c)) \<Rightarrow> wrap_and_return_true CI (Some c) Bs)"

subsection \<open>The candidate check and the driver\<close>

definition checkCandidate ::
  "TargetLibraryInfo \<Rightarrow> CallInst \<Rightarrow> CallInst list \<Rightarrow> error + CallInst list" where
  "checkCandidate TLI CI WorkList =
     (if isNoBuiltin CI then Inr WorkList
      else if \<not> use_empty CI then Inr WorkList
      else
        (case getCalledFunction CI of
           None \<Rightarrow> Inr WorkList
         | Some Callee \<Rightarrow>
             (case getLibFunc TLI Callee of
                None \<Rightarrow> Inr WorkList
              | Some Fn \<Rightarrow>
                  (if \<not> has TLI Fn then Inr WorkList
                   else
                     (case getArgOperand CI 0 of
                        Inl e \<Rightarrow> Inl e
                      | Inr A \<Rightarrow>
                          (let ArgType = getType A
                           in if \<not> (ArgType = FloatTy \<or> ArgType = DoubleTy
                                      \<or> ArgType = X86_FP80Ty)
                              then Inr WorkList
                              else Inr (WorkList @ [CI])))))))"

text \<open>
  \<^verbatim>\<open>perform(CallInst *CI)\<close>: the two assertions, then the three categories in order, a
  category behind its toggle. The result of \<^verbatim>\<open>getLibFunc\<close> is not looked at; the
  second assertion, \<^verbatim>\<open>assert(Func && ...)\<close>, tests the integer value of the enumerator
  and fails for the function whose value is \<open>0\<close>.
\<close>

definition perform ::
  "Options \<Rightarrow> TargetLibraryInfo \<Rightarrow> CallInst \<Rightarrow> BasicBlock list \<Rightarrow> error + bool \<times> BasicBlock list" where
  "perform opts TLI CI Bs =
     (case getCalledFunction CI of
        None \<Rightarrow> Inl AssertCallee
      | Some Callee \<Rightarrow>
          (case getLibFunc TLI Callee of
             None \<Rightarrow> Inl UninitializedFunc
           | Some Fn \<Rightarrow>
               (if Fn = LibFunc_other 0 then Inl AssertFunc
                else
                  (case (if LibCallsShrinkWrapDoDomainError opts
                         then performCallDomainErrorOnly CI Fn Bs
                         else Inr (False, Bs)) of
                     Inl e \<Rightarrow> Inl e
                   | Inr (True, Bs') \<Rightarrow> Inr (True, Bs')
                   | Inr (False, Bs') \<Rightarrow>
                       (case (if LibCallsShrinkWrapDoRangeError opts
                              then performCallRangeErrorOnly CI Fn Bs'
                              else Inr (False, Bs')) of
                          Inl e \<Rightarrow> Inl e
                        | Inr (True, Bs'') \<Rightarrow> Inr (True, Bs'')
                        | Inr (False, Bs'') \<Rightarrow> performCallErrors opts CI Fn Bs'')))))"

text \<open>\<^verbatim>\<open>perform()\<close>: the loop over the work list, with the field \<^verbatim>\<open>Changed\<close>.\<close>

fun perform_all ::
  "Options \<Rightarrow> TargetLibraryInfo \<Rightarrow> CallInst list \<Rightarrow> bool \<times> BasicBlock list
     \<Rightarrow> error + bool \<times> BasicBlock list" where
  "perform_all opts TLI [] (Changed, Bs) = Inr (Changed, Bs)"
| "perform_all opts TLI (CI # WorkList) (Changed, Bs) =
     (case perform opts TLI CI Bs of
        Inl e \<Rightarrow> Inl e
      | Inr (b, Bs') \<Rightarrow> perform_all opts TLI WorkList (if b then True else Changed, Bs'))"

text \<open>\<^verbatim>\<open>CCDCE.visit(F)\<close>: every instruction of every block in order, calls are checked.\<close>

fun visitInsts ::
  "TargetLibraryInfo \<Rightarrow> Instruction list \<Rightarrow> CallInst list \<Rightarrow> error + CallInst list" where
  "visitInsts TLI [] WorkList = Inr WorkList"
| "visitInsts TLI (Call CI # is) WorkList =
     (case checkCandidate TLI CI WorkList of
        Inl e \<Rightarrow> Inl e
      | Inr WorkList' \<Rightarrow> visitInsts TLI is WorkList')"
| "visitInsts TLI (OtherInstruction a # is) WorkList = visitInsts TLI is WorkList"

fun visit ::
  "TargetLibraryInfo \<Rightarrow> BasicBlock list \<Rightarrow> CallInst list \<Rightarrow> error + CallInst list" where
  "visit TLI [] WorkList = Inr WorkList"
| "visit TLI (B # Bs) WorkList =
     (case visitInsts TLI (bb_insts B) WorkList of
        Inl e \<Rightarrow> Inl e
      | Inr WorkList' \<Rightarrow> visit TLI Bs WorkList')"

definition runImpl :: "Options \<Rightarrow> Function \<Rightarrow> TargetLibraryInfo \<Rightarrow> error + bool \<times> Function" where
  "runImpl opts F TLI =
     (if hasOptimizeForSize F then Inr (False, F)
      else
        (case visit TLI (blocks F) [] of
           Inl e \<Rightarrow> Inl e
         | Inr WorkList \<Rightarrow>
             (case perform_all opts TLI WorkList (False, blocks F) of
                Inl e \<Rightarrow> Inl e
              | Inr (Changed, Bs) \<Rightarrow> Inr (Changed, F\<lparr>blocks := Bs\<rparr>))))"

section \<open>The tables of the specification, and example inputs\<close>

text \<open>
  The table of the specification for the domain-error category: the inverse sine and
  cosine family, the sine and cosine family, the inverse hyperbolic cosine family and
  the square-root family, as ordered comparisons.
\<close>

definition spec_domain_error :: "Func \<Rightarrow> APFloat \<Rightarrow> bool" where
  "spec_domain_error Fn x =
     (if Fn \<in> {LibFunc_acos, LibFunc_acosf, LibFunc_acosl,
                 LibFunc_asin, LibFunc_asinf, LibFunc_asinl}
      then fcmp FCMP_OLT x (fcNormal (- 1)) \<or> fcmp FCMP_OGT x (fcNormal 1)
      else if Fn \<in> {LibFunc_cos, LibFunc_cosf, LibFunc_cosl,
                      LibFunc_sin, LibFunc_sinf, LibFunc_sinl}
      then fcmp FCMP_OEQ x (fcInfinity False) \<or> fcmp FCMP_OEQ x (fcInfinity True)
      else if Fn \<in> {LibFunc_acosh, LibFunc_acoshf, LibFunc_acoshl}
      then fcmp FCMP_OLT x (fcNormal 1)
      else fcmp FCMP_OLT x (fcZero False))"

definition example_arg :: Value where
  "example_arg = OtherValue 0 DoubleTy"

definition example_call :: "string \<Rightarrow> CallInst" where
  "example_call callee =
     \<lparr>ci_addr = 1, isNoBuiltin = False, numUses = 0,
      getCalledFunction = Some callee, argOperands = [example_arg]\<rparr>"

text \<open>
  The bounds of the range-error category by function: lower and upper bound for the
  hyperbolic sine and cosine and the three exponentials, the upper bound for
  \<^verbatim>\<open>expm1\<close>, in double, float and extended precision.
\<close>

definition two_sided_range_table :: "(Func \<times> rat \<times> rat) list" where
  "two_sided_range_table =
     [(LibFunc_cosh, - 710, 710), (LibFunc_sinh, - 710, 710),
      (LibFunc_coshf, - 89, 89), (LibFunc_sinhf, - 89, 89),
      (LibFunc_coshl, - 11357, 11357), (LibFunc_sinhl, - 11357, 11357),
      (LibFunc_exp, - 745, 709), (LibFunc_expf, - 103, 88), (LibFunc_expl, - 11399, 11356),
      (LibFunc_exp10, - 323, 308), (LibFunc_exp10f, - 45, 38), (LibFunc_exp10l, - 4950, 4932),
      (LibFunc_exp2, - 1074, 1023), (LibFunc_exp2f, - 149, 127), (LibFunc_exp2l, - 16445, 11383)]"

definition one_sided_range_table :: "(Func \<times> rat) list" where
  "one_sided_range_table =
     [(LibFunc_expm1, 709), (LibFunc_expm1f, 88), (LibFunc_expm1l, 11356)]"

text \<open>
  The table of the specification for the combined domain and pole category: the inverse
  hyperbolic tangent family, the \<^verbatim>\<open>log1p\<close> family, and the logarithms.
\<close>

definition spec_combined_error :: "Func \<Rightarrow> APFloat \<Rightarrow> bool" where
  "spec_combined_error Fn x =
     (if Fn \<in> {LibFunc_atanh, LibFunc_atanhf, LibFunc_atanhl}
      then fcmp FCMP_OLE x (fcNormal (- 1)) \<or> fcmp FCMP_OGE x (fcNormal 1)
      else if Fn \<in> {LibFunc_log1p, LibFunc_log1pf, LibFunc_log1pl}
      then fcmp FCMP_OLE x (fcNormal (- 1))
      else fcmp FCMP_OLE x (fcZero False))"

text \<open>
  Where the base of a power call comes from, in the specification's terms: the width of
  the integer it was converted from, and a base that is neither a floating constant nor
  such a conversion.
\<close>

definition widened_from :: "Value \<Rightarrow> nat option" where
  "widened_from v =
     (case v of
        InstructionValue a opc ty \<Rightarrow>
          (case opc of UIToFP w \<Rightarrow> Some w | SIToFP w \<Rightarrow> Some w | OtherOpcode n \<Rightarrow> None)
      | _ \<Rightarrow> None)"

definition unknown_provenance :: "Value \<Rightarrow> bool" where
  "unknown_provenance v =
     (case v of ConstantFPValue c \<Rightarrow> False | _ \<Rightarrow> widened_from v = None)"

definition all_enabled :: "Options \<Rightarrow> bool" where
  "all_enabled opts =
     (LibCallsShrinkWrapDoDomainError opts \<and> LibCallsShrinkWrapDoPoleError opts
      \<and> LibCallsShrinkWrapDoRangeError opts)"

definition example_pow_call :: "Value \<Rightarrow> CallInst" where
  "example_pow_call b =
     \<lparr>ci_addr = 1, isNoBuiltin = False, numUses = 0,
      getCalledFunction = Some ''pow'', argOperands = [b, OtherValue 1 DoubleTy]\<rparr>"

definition pow_nan_base_call :: CallInst where
  "pow_nan_base_call = example_pow_call (ConstantFPValue (ConstantFP DoubleTy fcNaN))"

text \<open>
  The candidate check in the specification's words: not marked no-builtin, no use of
  the result, a callee that resolves to a recognized library function available on the
  target, and a first argument of one of the three supported types.
\<close>

definition spec_admitted :: "TargetLibraryInfo \<Rightarrow> CallInst \<Rightarrow> bool" where
  "spec_admitted TLI CI =
     (\<not> isNoBuiltin CI
      \<and> numUses CI = 0
      \<and> (case getCalledFunction CI of
            None \<Rightarrow> False
          | Some Callee \<Rightarrow>
              (case getLibFunc TLI Callee of None \<Rightarrow> False | Some Fn \<Rightarrow> has TLI Fn))
      \<and> (case argOperands CI of
            [] \<Rightarrow> False
          | a # as \<Rightarrow> getType a \<in> {FloatTy, DoubleTy, X86_FP80Ty}))"

text \<open>The families of the three categories.\<close>

definition domain_only_funcs :: "Func set" where
  "domain_only_funcs =
     {LibFunc_acos, LibFunc_acosf, LibFunc_acosl, LibFunc_asin, LibFunc_asinf, LibFunc_asinl,
      LibFunc_cos, LibFunc_cosf, LibFunc_cosl, LibFunc_sin, LibFunc_sinf, LibFunc_sinl,
      LibFunc_acosh, LibFunc_acoshf, LibFunc_acoshl,
      LibFunc_sqrt, LibFunc_sqrtf, LibFunc_sqrtl}"

definition range_only_funcs :: "Func set" where
  "range_only_funcs =
     {LibFunc_cosh, LibFunc_coshf, LibFunc_coshl, LibFunc_exp, LibFunc_expf, LibFunc_expl,
      LibFunc_exp10, LibFunc_exp10f, LibFunc_exp10l, LibFunc_exp2, LibFunc_exp2f, LibFunc_exp2l,
      LibFunc_sinh, LibFunc_sinhf, LibFunc_sinhl,
      LibFunc_expm1, LibFunc_expm1f, LibFunc_expm1l}"

definition domain_pole_funcs :: "Func set" where
  "domain_pole_funcs =
     {LibFunc_atanh, LibFunc_atanhf, LibFunc_atanhl,
      LibFunc_log, LibFunc_logf, LibFunc_logl, LibFunc_log10, LibFunc_log10f, LibFunc_log10l,
      LibFunc_log2, LibFunc_log2f, LibFunc_log2l, LibFunc_logb, LibFunc_logbf, LibFunc_logbl,
      LibFunc_log1p, LibFunc_log1pf, LibFunc_log1pl}"

definition pow_funcs :: "Func set" where
  "pow_funcs = {LibFunc_pow, LibFunc_powf, LibFunc_powl}"

text \<open>
  A target that knows a few functions by name, all available; \<open>''first_libfunc''\<close> is
  the name of the first function of the enumeration.
\<close>

definition example_TLI :: TargetLibraryInfo where
  "example_TLI =
     \<lparr>getLibFunc = (\<lambda>n. if n = ''sqrt'' then Some LibFunc_sqrt
                        else if n = ''exp'' then Some LibFunc_exp
                        else if n = ''log'' then Some LibFunc_log
                        else if n = ''pow'' then Some LibFunc_pow
                        else if n = ''getchar'' then Some (LibFunc_other 1)
                        else if n = ''first_libfunc'' then Some (LibFunc_other 0)
                        else None),
      has = (\<lambda>Fn. True)\<rparr>"

text \<open>A call of a recognized function that takes no argument, its result unused.\<close>

definition no_argument_call :: CallInst where
  "no_argument_call =
     \<lparr>ci_addr = 1, isNoBuiltin = False, numUses = 0,
      getCalledFunction = Some ''getchar'', argOperands = []\<rparr>"

text \<open>A body of one block: the call \<open>example_call callee\<close> between two other instructions.\<close>

definition example_blocks :: "string \<Rightarrow> BasicBlock list" where
  "example_blocks callee =
     [\<lparr>bb_label = 0, bb_name = ''entry'',
       bb_insts = [OtherInstruction 10, Call (example_call callee), OtherInstruction 11],
       bb_term = OtherTerminator 0\<rparr>]"







text \<open>
  A call of the function the target resolves to the first of the enumeration, with a
  floating-point argument and an unused result; and a body with two calls in one block.
\<close>

definition first_libfunc_call :: CallInst where
  "first_libfunc_call =
     \<lparr>ci_addr = 2, isNoBuiltin = False, numUses = 0,
      getCalledFunction = Some ''first_libfunc'', argOperands = [example_arg]\<rparr>"

definition two_call_function :: "string \<Rightarrow> string \<Rightarrow> Function" where
  "two_call_function f g =
     \<lparr>hasOptimizeForSize = False,
      blocks = [\<lparr>bb_label = 0, bb_name = ''entry'',
                 bb_insts = [Call (example_call f), OtherInstruction 10,
                             Call ((example_call g)\<lparr>ci_addr := 2\<rparr>)],
                 bb_term = OtherTerminator 0\<rparr>]\<rparr>"





section \<open>Properties\<close>

subsection \<open>Conditions built on the first argument\<close>

lemma getArgOperand_first: "argOperands CI = a # as \<Longrightarrow> getArgOperand CI 0 = Inr a"
  by (simp add: getArgOperand_def)

lemma getValueAPF_getFPExtend: "getValueAPF (getFPExtend c ty) = getValueAPF c"
  by (cases c) simp

lemma evalCond_createCond_builder:
  "evalCond \<rho> (createCond_builder a p v) = fcmp p (valueOf \<rho> a) v"
  by (simp add: createCond_builder_def Let_def)

lemma createCond_first:
  "argOperands CI = a # as \<Longrightarrow> createCond CI p v = Inr (createCond_builder a p v)"
  by (simp add: createCond_def getArgOperand_first)

lemma createOrCond_first:
  "argOperands CI = a # as \<Longrightarrow>
   createOrCond CI p v p2 v2 = Inr (Or (createCond_builder a p v) (createCond_builder a p2 v2))"
  by (simp add: createOrCond_def getArgOperand_first Let_def)

lemma break_with_Inr: "break_with (Inr c) = Inr (Break (Some c))"
  by (simp add: break_with_def)

lemma domain_switch_asin:
  assumes "argOperands CI = a # as"
    and "Fn \<in> {LibFunc_acos, LibFunc_acosf, LibFunc_acosl, LibFunc_asin, LibFunc_asinf, LibFunc_asinl}"
  shows "performCallDomainErrorOnly_switch CI Fn =
           Inr (Break (Some (Or (createCond_builder a FCMP_OLT (fcNormal (- 1)))
                                (createCond_builder a FCMP_OGT (fcNormal 1)))))"
  using assms(2) by (simp add: performCallDomainErrorOnly_switch_def createOrCond_first [OF assms(1)] break_with_Inr)

lemma domain_switch_sin:
  assumes "argOperands CI = a # as"
    and "Fn \<in> {LibFunc_cos, LibFunc_cosf, LibFunc_cosl, LibFunc_sin, LibFunc_sinf, LibFunc_sinl}"
  shows "performCallDomainErrorOnly_switch CI Fn =
           Inr (Break (Some (Or (createCond_builder a FCMP_OEQ (fcInfinity False))
                                (createCond_builder a FCMP_OEQ (fcInfinity True)))))"
  using assms(2) by (auto simp add: performCallDomainErrorOnly_switch_def createOrCond_first [OF assms(1)] break_with_Inr)

lemma domain_switch_acosh:
  assumes "argOperands CI = a # as"
    and "Fn \<in> {LibFunc_acosh, LibFunc_acoshf, LibFunc_acoshl}"
  shows "performCallDomainErrorOnly_switch CI Fn =
           Inr (Break (Some (createCond_builder a FCMP_OLT (fcNormal 1))))"
  using assms(2) by (auto simp add: performCallDomainErrorOnly_switch_def createCond_first [OF assms(1)] break_with_Inr)

lemma domain_switch_sqrt:
  assumes "argOperands CI = a # as"
    and "Fn \<in> {LibFunc_sqrt, LibFunc_sqrtf, LibFunc_sqrtl}"
  shows "performCallDomainErrorOnly_switch CI Fn =
           Inr (Break (Some (createCond_builder a FCMP_OLT (fcZero False))))"
  using assms(2) by (auto simp add: performCallDomainErrorOnly_switch_def createCond_first [OF assms(1)] break_with_Inr)

lemma fcmp_olt_zero_negzero: "\<not> fcmp FCMP_OLT (fcZero True) (fcZero False)"
  by (simp add: fcmp_def)

lemma fcmp_olt_zero_normal: "fcmp FCMP_OLT (fcNormal q) (fcZero False) = (q < 0)"
  by (simp add: fcmp_def)


lemma wrap_after_domain_switch:
  "performCallDomainErrorOnly_switch CI Fn = Inr (Break Cond) \<Longrightarrow>
   performCallDomainErrorOnly CI Fn Bs = wrap_and_return_true CI Cond Bs"
  by (simp add: performCallDomainErrorOnly_def)

subsection \<open>The domain-error category\<close>

text \<open>
  Claim C1. For a call with a first argument and a function of the domain-error
  category, \<^verbatim>\<open>performCallDomainErrorOnly\<close> builds a condition, hands it to the rewrite
  and returns true, and the value of the condition is the entry of the specification's
  table at the value of the first argument: below \<open>-1\<close> or above \<open>1\<close> for the inverse
  sine and cosine family, equal to plus or minus infinity for the sine and cosine
  family, below \<open>1\<close> for the inverse hyperbolic cosine family, below \<open>0\<close> for the
  square-root family, all ordered comparisons. For the square-root family the condition
  is false at negative zero and, at a finite non-zero argument, true exactly when the
  argument is negative (so true at \<open>-1e-10\<close>).
\<close>

theorem domain_error_predicate_matches_table:
  assumes args: "argOperands CI = a # as"
    and fam: "Fn \<in> {LibFunc_acos, LibFunc_acosf, LibFunc_acosl,
                     LibFunc_asin, LibFunc_asinf, LibFunc_asinl,
                     LibFunc_cos, LibFunc_cosf, LibFunc_cosl,
                     LibFunc_sin, LibFunc_sinf, LibFunc_sinl,
                     LibFunc_acosh, LibFunc_acoshf, LibFunc_acoshl,
                     LibFunc_sqrt, LibFunc_sqrtf, LibFunc_sqrtl}"
  shows "\<exists>c. performCallDomainErrorOnly_switch CI Fn = Inr (Break (Some c))
           \<and> performCallDomainErrorOnly CI Fn Bs = wrap_and_return_true CI (Some c) Bs
           \<and> (\<forall>\<rho>. evalCond \<rho> c = spec_domain_error Fn (valueOf \<rho> a))
           \<and> (Fn \<in> {LibFunc_sqrt, LibFunc_sqrtf, LibFunc_sqrtl} \<longrightarrow>
                (\<forall>\<rho>. valueOf \<rho> a = fcZero True \<longrightarrow> \<not> evalCond \<rho> c)
              \<and> (\<forall>\<rho> q. valueOf \<rho> a = fcNormal q \<longrightarrow> evalCond \<rho> c = (q < 0)))"
proof -
  consider
    (asin) "Fn \<in> {LibFunc_acos, LibFunc_acosf, LibFunc_acosl,
                    LibFunc_asin, LibFunc_asinf, LibFunc_asinl}"
  | (sin) "Fn \<in> {LibFunc_cos, LibFunc_cosf, LibFunc_cosl,
                   LibFunc_sin, LibFunc_sinf, LibFunc_sinl}"
  | (acosh) "Fn \<in> {LibFunc_acosh, LibFunc_acoshf, LibFunc_acoshl}"
  | (sqrt) "Fn \<in> {LibFunc_sqrt, LibFunc_sqrtf, LibFunc_sqrtl}"
    using fam by blast
  then show ?thesis
  proof cases
    case asin
    have sw: "performCallDomainErrorOnly_switch CI Fn =
                Inr (Break (Some (Or (createCond_builder a FCMP_OLT (fcNormal (- 1)))
                                     (createCond_builder a FCMP_OGT (fcNormal 1)))))"
      by (rule domain_switch_asin [OF args asin])
    have tab: "spec_domain_error Fn x =
                 (fcmp FCMP_OLT x (fcNormal (- 1)) \<or> fcmp FCMP_OGT x (fcNormal 1))" for x
      using asin by (simp add: spec_domain_error_def)
    have nsq: "Fn \<notin> {LibFunc_sqrt, LibFunc_sqrtf, LibFunc_sqrtl}"
      using asin by auto
    show ?thesis
      using sw wrap_after_domain_switch [OF sw] tab nsq
      by (simp add: evalCond_createCond_builder)
  next
    case sin
    have sw: "performCallDomainErrorOnly_switch CI Fn =
                Inr (Break (Some (Or (createCond_builder a FCMP_OEQ (fcInfinity False))
                                     (createCond_builder a FCMP_OEQ (fcInfinity True)))))"
      by (rule domain_switch_sin [OF args sin])
    have tab: "spec_domain_error Fn x =
                 (fcmp FCMP_OEQ x (fcInfinity False) \<or> fcmp FCMP_OEQ x (fcInfinity True))" for x
      using sin by (auto simp add: spec_domain_error_def)
    have nsq: "Fn \<notin> {LibFunc_sqrt, LibFunc_sqrtf, LibFunc_sqrtl}"
      using sin by auto
    show ?thesis
      using sw wrap_after_domain_switch [OF sw] tab nsq
      by (simp add: evalCond_createCond_builder)
  next
    case acosh
    have sw: "performCallDomainErrorOnly_switch CI Fn =
                Inr (Break (Some (createCond_builder a FCMP_OLT (fcNormal 1))))"
      by (rule domain_switch_acosh [OF args acosh])
    have tab: "spec_domain_error Fn x = fcmp FCMP_OLT x (fcNormal 1)" for x
      using acosh by (auto simp add: spec_domain_error_def)
    have nsq: "Fn \<notin> {LibFunc_sqrt, LibFunc_sqrtf, LibFunc_sqrtl}"
      using acosh by auto
    show ?thesis
      using sw wrap_after_domain_switch [OF sw] tab nsq
      by (simp add: evalCond_createCond_builder)
  next
    case sqrt
    have sw: "performCallDomainErrorOnly_switch CI Fn =
                Inr (Break (Some (createCond_builder a FCMP_OLT (fcZero False))))"
      by (rule domain_switch_sqrt [OF args sqrt])
    have tab: "spec_domain_error Fn x = fcmp FCMP_OLT x (fcZero False)" for x
      using sqrt by (auto simp add: spec_domain_error_def)
    show ?thesis
      using sw wrap_after_domain_switch [OF sw] tab
      by (simp add: evalCond_createCond_builder fcmp_olt_zero_negzero fcmp_olt_zero_normal)
  qed
qed

text \<open>
  The square root at negative zero, at \<open>-1e-10\<close> (as a double:
  \<open>-7737125245533627 / 2 ^ 86\<close>) and at NaN.
\<close>

theorem domain_error_predicate_witness:
  "\<exists>c. performCallDomainErrorOnly_switch (example_call ''sqrt'') LibFunc_sqrt = Inr (Break (Some c))
     \<and> \<not> evalCond (\<lambda>v. fcZero True) c
     \<and> evalCond (\<lambda>v. fcNormal (- 7737125245533627 / 77371252455336267181195264)) c
     \<and> \<not> evalCond (\<lambda>v. fcNaN) c"
proof -
  have args: "argOperands (example_call ''sqrt'') = example_arg # []"
    by (simp add: example_call_def)
  have fam: "LibFunc_sqrt \<in> {LibFunc_acos, LibFunc_acosf, LibFunc_acosl,
                     LibFunc_asin, LibFunc_asinf, LibFunc_asinl,
                     LibFunc_cos, LibFunc_cosf, LibFunc_cosl,
                     LibFunc_sin, LibFunc_sinf, LibFunc_sinl,
                     LibFunc_acosh, LibFunc_acoshf, LibFunc_acoshl,
                     LibFunc_sqrt, LibFunc_sqrtf, LibFunc_sqrtl}"
    by simp
  from domain_error_predicate_matches_table [OF args fam, of "[]"]
  obtain c where c: "performCallDomainErrorOnly_switch (example_call ''sqrt'') LibFunc_sqrt = Inr (Break (Some c))"
    and tab: "\<forall>\<rho>. evalCond \<rho> c = spec_domain_error LibFunc_sqrt (valueOf \<rho> example_arg)"
    and z: "\<forall>\<rho>. valueOf \<rho> example_arg = fcZero True \<longrightarrow> \<not> evalCond \<rho> c"
    and n: "\<forall>\<rho> q. valueOf \<rho> example_arg = fcNormal q \<longrightarrow> evalCond \<rho> c = (q < 0)"
    by auto
  have "\<not> evalCond (\<lambda>v. fcZero True) c"
    using z by (simp add: example_arg_def)
  moreover have "evalCond (\<lambda>v. fcNormal (- 7737125245533627 / 77371252455336267181195264)) c"
    using n by (simp add: example_arg_def)
  moreover have "\<not> evalCond (\<lambda>v. fcNaN) c"
    using tab by (simp add: example_arg_def spec_domain_error_def fcmp_def)
  ultimately show ?thesis using c by blast
qed

subsection \<open>The range-error category\<close>

lemma generateTwoRangeCond_table:
  assumes "argOperands CI = a # as"
    and "(Fn, L, U) \<in> set two_sided_range_table"
  shows "generateTwoRangeCond CI Fn =
           Inr (Or (createCond_builder a FCMP_OGT (fcNormal U))
                   (createCond_builder a FCMP_OLT (fcNormal L)))"
  using assms(2)
  by (auto simp add: two_sided_range_table_def generateTwoRangeCond_def
        createOrCond_first [OF assms(1)])

lemma two_sided_range_table_switch:
  assumes "(Fn, L, U) \<in> set two_sided_range_table"
  shows "performCallRangeErrorOnly_switch CI Fn = break_with (generateTwoRangeCond CI Fn)"
  using assms
  by (auto simp add: two_sided_range_table_def performCallRangeErrorOnly_switch_def)

lemma generateOneRangeCond_table:
  assumes "argOperands CI = a # as"
    and "(Fn, U) \<in> set one_sided_range_table"
  shows "generateOneRangeCond CI Fn = Inr (createCond_builder a FCMP_OGT (fcNormal U))"
  using assms(2)
  by (auto simp add: one_sided_range_table_def generateOneRangeCond_def
        createCond_first [OF assms(1)])

lemma one_sided_range_table_switch:
  assumes "(Fn, U) \<in> set one_sided_range_table"
  shows "performCallRangeErrorOnly_switch CI Fn = break_with (generateOneRangeCond CI Fn)"
  using assms
  by (auto simp add: one_sided_range_table_def performCallRangeErrorOnly_switch_def)

lemma wrap_after_range_switch:
  "performCallRangeErrorOnly_switch CI Fn = Inr (Break Cond) \<Longrightarrow>
   performCallRangeErrorOnly CI Fn Bs = wrap_and_return_true CI Cond Bs"
  by (simp add: performCallRangeErrorOnly_def)

text \<open>
  Claim C4. For a call with a first argument, every function of the two-sided table
  gets the condition ``argument below the lower bound or above the upper bound'' with
  the bounds of its row (the exponential: \<open>-745\<close> and \<open>709\<close> in double, \<open>-103\<close> and
  \<open>88\<close> in float, \<open>-11399\<close> and \<open>11356\<close> in extended precision), and every function
  of the \<^verbatim>\<open>expm1\<close> family gets the single comparison ``argument above the upper
  bound'' (\<open>709\<close>, \<open>88\<close>, \<open>11356\<close>); the condition goes to the rewrite and
  \<^verbatim>\<open>performCallRangeErrorOnly\<close> returns true.
\<close>

theorem range_error_predicate_bounds:
  assumes args: "argOperands CI = a # as"
  shows "(\<forall>(Fn, L, U) \<in> set two_sided_range_table.
            \<exists>c. performCallRangeErrorOnly_switch CI Fn = Inr (Break (Some c))
              \<and> performCallRangeErrorOnly CI Fn Bs = wrap_and_return_true CI (Some c) Bs
              \<and> (\<forall>\<rho>. evalCond \<rho> c =
                    (fcmp FCMP_OLT (valueOf \<rho> a) (fcNormal L)
                     \<or> fcmp FCMP_OGT (valueOf \<rho> a) (fcNormal U))))
       \<and> (\<forall>(Fn, U) \<in> set one_sided_range_table.
            \<exists>c. performCallRangeErrorOnly_switch CI Fn = Inr (Break (Some c))
              \<and> performCallRangeErrorOnly CI Fn Bs = wrap_and_return_true CI (Some c) Bs
              \<and> (\<forall>\<rho>. evalCond \<rho> c = fcmp FCMP_OGT (valueOf \<rho> a) (fcNormal U)))"
proof (intro conjI ballI)
  fix x assume x: "x \<in> set two_sided_range_table"
  obtain Fn L U where [simp]: "x = (Fn, L, U)" by (cases x) auto
  have sw: "performCallRangeErrorOnly_switch CI Fn =
              Inr (Break (Some (Or (createCond_builder a FCMP_OGT (fcNormal U))
                                   (createCond_builder a FCMP_OLT (fcNormal L)))))"
    using x two_sided_range_table_switch [of Fn L U CI] generateTwoRangeCond_table [OF args, of Fn L U]
    by (simp add: break_with_Inr)
  show "case x of (Fn, L, U) \<Rightarrow>
            \<exists>c. performCallRangeErrorOnly_switch CI Fn = Inr (Break (Some c))
              \<and> performCallRangeErrorOnly CI Fn Bs = wrap_and_return_true CI (Some c) Bs
              \<and> (\<forall>\<rho>. evalCond \<rho> c =
                    (fcmp FCMP_OLT (valueOf \<rho> a) (fcNormal L)
                     \<or> fcmp FCMP_OGT (valueOf \<rho> a) (fcNormal U)))"
    using sw wrap_after_range_switch [OF sw]
    by (auto simp add: evalCond_createCond_builder)
next
  fix x assume x: "x \<in> set one_sided_range_table"
  obtain Fn U where [simp]: "x = (Fn, U)" by (cases x) auto
  have sw: "performCallRangeErrorOnly_switch CI Fn =
              Inr (Break (Some (createCond_builder a FCMP_OGT (fcNormal U))))"
    using x one_sided_range_table_switch [of Fn U CI] generateOneRangeCond_table [OF args, of Fn U]
    by (simp add: break_with_Inr)
  show "case x of (Fn, U) \<Rightarrow>
            \<exists>c. performCallRangeErrorOnly_switch CI Fn = Inr (Break (Some c))
              \<and> performCallRangeErrorOnly CI Fn Bs = wrap_and_return_true CI (Some c) Bs
              \<and> (\<forall>\<rho>. evalCond \<rho> c = fcmp FCMP_OGT (valueOf \<rho> a) (fcNormal U))"
    using sw wrap_after_range_switch [OF sw]
    by (auto simp add: evalCond_createCond_builder)
qed

lemma fcmp_normal_olt: "fcmp FCMP_OLT (fcNormal x) (fcNormal y) = (x < y)"
  by (simp add: fcmp_def)

lemma fcmp_normal_ogt: "fcmp FCMP_OGT (fcNormal x) (fcNormal y) = (y < x)"
  by (simp add: fcmp_def)

theorem range_error_predicate_witness:
  "(\<exists>c. performCallRangeErrorOnly_switch (example_call ''exp'') LibFunc_exp = Inr (Break (Some c))
      \<and> (\<forall>q. evalCond (\<lambda>v. fcNormal q) c = (q < - 745 \<or> 709 < q)))
   \<and> (\<exists>c. performCallRangeErrorOnly_switch (example_call ''expf'') LibFunc_expf = Inr (Break (Some c))
      \<and> (\<forall>q. evalCond (\<lambda>v. fcNormal q) c = (q < - 103 \<or> 88 < q)))
   \<and> (\<exists>c. performCallRangeErrorOnly_switch (example_call ''expl'') LibFunc_expl = Inr (Break (Some c))
      \<and> (\<forall>q. evalCond (\<lambda>v. fcNormal q) c = (q < - 11399 \<or> 11356 < q)))
   \<and> (\<exists>c. performCallRangeErrorOnly_switch (example_call ''expm1'') LibFunc_expm1 = Inr (Break (Some c))
      \<and> (\<forall>q. evalCond (\<lambda>v. fcNormal q) c = (709 < q)))"
proof -
  have args: "argOperands (example_call n) = example_arg # []" for n
    by (simp add: example_call_def)
  have v: "valueOf \<rho> example_arg = \<rho> example_arg" for \<rho>
    by (simp add: example_arg_def)
  have two: "\<exists>c. performCallRangeErrorOnly_switch (example_call n) Fn = Inr (Break (Some c))
               \<and> (\<forall>q. evalCond (\<lambda>v. fcNormal q) c = (q < L \<or> U < q))"
    if m: "(Fn, L, U) \<in> set two_sided_range_table" for n Fn L U
    using range_error_predicate_bounds [OF args, THEN conjunct1, THEN bspec, OF m, of n "[]"]
    by (auto simp add: v fcmp_normal_olt fcmp_normal_ogt)
  have one: "\<exists>c. performCallRangeErrorOnly_switch (example_call n) Fn = Inr (Break (Some c))
               \<and> (\<forall>q. evalCond (\<lambda>v. fcNormal q) c = (U < q))"
    if m: "(Fn, U) \<in> set one_sided_range_table" for n Fn U
    using range_error_predicate_bounds [OF args, THEN conjunct2, THEN bspec, OF m, of n "[]"]
    by (auto simp add: v fcmp_normal_ogt)
  have "(LibFunc_exp, - 745, 709) \<in> set two_sided_range_table"
    and "(LibFunc_expf, - 103, 88) \<in> set two_sided_range_table"
    and "(LibFunc_expl, - 11399, 11356) \<in> set two_sided_range_table"
    and "(LibFunc_expm1, 709) \<in> set one_sided_range_table"
    by (simp_all add: two_sided_range_table_def one_sided_range_table_def)
  then show ?thesis
    using two one by blast
qed

subsection \<open>The combined category\<close>

lemma errors_switch_atanh:
  assumes "argOperands CI = a # as"
    and "LibCallsShrinkWrapDoDomainError opts" and "LibCallsShrinkWrapDoPoleError opts"
    and "Fn \<in> {LibFunc_atanh, LibFunc_atanhf, LibFunc_atanhl}"
  shows "performCallErrors_switch opts CI Fn =
           Inr (Break (Some (Or (createCond_builder a FCMP_OLE (fcNormal (- 1)))
                                (createCond_builder a FCMP_OGE (fcNormal 1)))))"
  using assms(2-4)
  by (simp add: performCallErrors_switch_def createOrCond_first [OF assms(1)] break_with_Inr)

lemma errors_switch_log:
  assumes "argOperands CI = a # as"
    and "LibCallsShrinkWrapDoDomainError opts" and "LibCallsShrinkWrapDoPoleError opts"
    and "Fn \<in> {LibFunc_log, LibFunc_logf, LibFunc_logl,
                 LibFunc_log10, LibFunc_log10f, LibFunc_log10l,
                 LibFunc_log2, LibFunc_log2f, LibFunc_log2l,
                 LibFunc_logb, LibFunc_logbf, LibFunc_logbl}"
  shows "performCallErrors_switch opts CI Fn =
           Inr (Break (Some (createCond_builder a FCMP_OLE (fcZero False))))"
  using assms(2-4)
  by (auto simp add: performCallErrors_switch_def createCond_first [OF assms(1)] break_with_Inr)

lemma errors_switch_log1p:
  assumes "argOperands CI = a # as"
    and "LibCallsShrinkWrapDoDomainError opts" and "LibCallsShrinkWrapDoPoleError opts"
    and "Fn \<in> {LibFunc_log1p, LibFunc_log1pf, LibFunc_log1pl}"
  shows "performCallErrors_switch opts CI Fn =
           Inr (Break (Some (createCond_builder a FCMP_OLE (fcNormal (- 1)))))"
  using assms(2-4)
  by (auto simp add: performCallErrors_switch_def createCond_first [OF assms(1)] break_with_Inr)

lemma wrap_after_errors_switch:
  "performCallErrors_switch opts CI Fn = Inr (Break (Some c)) \<Longrightarrow>
   performCallErrors opts CI Fn Bs = wrap_and_return_true CI (Some c) Bs"
  by (simp add: performCallErrors_def)

lemma return_false_after_errors_switch:
  "performCallErrors_switch opts CI Fn = Inr ReturnFalse \<Longrightarrow>
   performCallErrors opts CI Fn Bs = Inr (False, Bs)"
  by (simp add: performCallErrors_def)

text \<open>
  Claim C5. With the domain-error and the pole-error toggles enabled, for a call with a
  first argument and a function of the combined category, \<^verbatim>\<open>performCallErrors\<close> builds
  a condition whose value is the entry of the specification's table: at most \<open>-1\<close> or
  at least \<open>1\<close> for the inverse hyperbolic tangent family, at most \<open>0\<close> for the
  logarithms (natural, base 2, base 10, \<^verbatim>\<open>logb\<close>), at most \<open>-1\<close> for the \<^verbatim>\<open>log1p\<close>
  family; the condition goes to the rewrite.
\<close>

theorem combined_error_predicate_matches_table:
  assumes args: "argOperands CI = a # as"
    and dom: "LibCallsShrinkWrapDoDomainError opts"
    and pole: "LibCallsShrinkWrapDoPoleError opts"
    and fam: "Fn \<in> {LibFunc_atanh, LibFunc_atanhf, LibFunc_atanhl,
                     LibFunc_log, LibFunc_logf, LibFunc_logl,
                     LibFunc_log10, LibFunc_log10f, LibFunc_log10l,
                     LibFunc_log2, LibFunc_log2f, LibFunc_log2l,
                     LibFunc_logb, LibFunc_logbf, LibFunc_logbl,
                     LibFunc_log1p, LibFunc_log1pf, LibFunc_log1pl}"
  shows "\<exists>c. performCallErrors_switch opts CI Fn = Inr (Break (Some c))
           \<and> performCallErrors opts CI Fn Bs = wrap_and_return_true CI (Some c) Bs
           \<and> (\<forall>\<rho>. evalCond \<rho> c = spec_combined_error Fn (valueOf \<rho> a))"
proof -
  consider
    (atanh) "Fn \<in> {LibFunc_atanh, LibFunc_atanhf, LibFunc_atanhl}"
  | (log) "Fn \<in> {LibFunc_log, LibFunc_logf, LibFunc_logl,
                  LibFunc_log10, LibFunc_log10f, LibFunc_log10l,
                  LibFunc_log2, LibFunc_log2f, LibFunc_log2l,
                  LibFunc_logb, LibFunc_logbf, LibFunc_logbl}"
  | (log1p) "Fn \<in> {LibFunc_log1p, LibFunc_log1pf, LibFunc_log1pl}"
    using fam by blast
  then show ?thesis
  proof cases
    case atanh
    note sw = errors_switch_atanh [OF args dom pole atanh]
    have tab: "spec_combined_error Fn x =
                 (fcmp FCMP_OLE x (fcNormal (- 1)) \<or> fcmp FCMP_OGE x (fcNormal 1))" for x
      using atanh by (simp add: spec_combined_error_def)
    show ?thesis
      using sw wrap_after_errors_switch [OF sw] tab
      by (simp add: evalCond_createCond_builder)
  next
    case log
    note sw = errors_switch_log [OF args dom pole log]
    have tab: "spec_combined_error Fn x = fcmp FCMP_OLE x (fcZero False)" for x
      using log by (auto simp add: spec_combined_error_def)
    show ?thesis
      using sw wrap_after_errors_switch [OF sw] tab
      by (simp add: evalCond_createCond_builder)
  next
    case log1p
    note sw = errors_switch_log1p [OF args dom pole log1p]
    have tab: "spec_combined_error Fn x = fcmp FCMP_OLE x (fcNormal (- 1))" for x
      using log1p by (auto simp add: spec_combined_error_def)
    show ?thesis
      using sw wrap_after_errors_switch [OF sw] tab
      by (simp add: evalCond_createCond_builder)
  qed
qed

theorem combined_error_predicate_witness:
  "\<exists>c. performCallErrors_switch default_options (example_call ''log'') LibFunc_log
          = Inr (Break (Some c))
     \<and> evalCond (\<lambda>v. fcZero False) c \<and> evalCond (\<lambda>v. fcZero True) c
     \<and> evalCond (\<lambda>v. fcNormal (- 3)) c \<and> \<not> evalCond (\<lambda>v. fcNormal (1 / 2)) c
     \<and> \<not> evalCond (\<lambda>v. fcNaN) c"
proof -
  have args: "argOperands (example_call ''log'') = example_arg # []"
    by (simp add: example_call_def)
  have fam: "LibFunc_log \<in> {LibFunc_atanh, LibFunc_atanhf, LibFunc_atanhl,
                     LibFunc_log, LibFunc_logf, LibFunc_logl,
                     LibFunc_log10, LibFunc_log10f, LibFunc_log10l,
                     LibFunc_log2, LibFunc_log2f, LibFunc_log2l,
                     LibFunc_logb, LibFunc_logbf, LibFunc_logbl,
                     LibFunc_log1p, LibFunc_log1pf, LibFunc_log1pl}"
    by simp
  have dom: "LibCallsShrinkWrapDoDomainError default_options"
    and pole: "LibCallsShrinkWrapDoPoleError default_options"
    by (simp_all add: default_options_def)
  from combined_error_predicate_matches_table [OF args dom pole fam, of "[]"]
  obtain c where c: "performCallErrors_switch default_options (example_call ''log'') LibFunc_log
                       = Inr (Break (Some c))"
    and tab: "\<And>\<rho>. evalCond \<rho> c = spec_combined_error LibFunc_log (valueOf \<rho> example_arg)"
    by auto
  have "evalCond (\<lambda>v. fcZero False) c" "evalCond (\<lambda>v. fcZero True) c"
    "evalCond (\<lambda>v. fcNormal (- 3)) c" "\<not> evalCond (\<lambda>v. fcNormal (1 / 2)) c"
    "\<not> evalCond (\<lambda>v. fcNaN) c"
    by (simp_all add: tab example_arg_def spec_combined_error_def fcmp_def)
  then show ?thesis using c by blast
qed

subsection \<open>The power function\<close>

lemma getArgOperand_second:
  "argOperands CI = a # b # as \<Longrightarrow> getArgOperand CI (Suc 0) = Inr b"
  by (simp add: getArgOperand_def)

lemma generateCondForPow_not_pow:
  "Fn \<noteq> LibFunc_pow \<Longrightarrow> generateCondForPow CI Fn = Inr None"
  by (simp add: generateCondForPow_def)

lemma errors_switch_pow_disabled:
  assumes "Fn \<in> {LibFunc_pow, LibFunc_powf, LibFunc_powl}"
    and "\<not> all_enabled opts"
  shows "performCallErrors_switch opts CI Fn = Inr ReturnFalse"
  using assms by (auto simp add: performCallErrors_switch_def all_enabled_def)

lemma errors_switch_pow_enabled:
  assumes "Fn \<in> {LibFunc_pow, LibFunc_powf, LibFunc_powl}"
    and "all_enabled opts"
  shows "performCallErrors_switch opts CI Fn =
           (case generateCondForPow CI Fn of
              Inl e \<Rightarrow> Inl e
            | Inr None \<Rightarrow> Inr ReturnFalse
            | Inr (Some c) \<Rightarrow> Inr (Break (Some c)))"
  using assms by (auto simp add: performCallErrors_switch_def all_enabled_def)

lemma pow_declined_untouched:
  assumes "Fn \<in> {LibFunc_pow, LibFunc_powf, LibFunc_powl}"
    and "generateCondForPow CI Fn = Inr None"
  shows "performCallErrors opts CI Fn Bs = Inr (False, Bs)"
proof (cases "all_enabled opts")
  case True
  then show ?thesis
    using errors_switch_pow_enabled [OF assms(1) True, of CI] assms(2)
    by (simp add: return_false_after_errors_switch)
next
  case False
  then show ?thesis
    using errors_switch_pow_disabled [OF assms(1) False, of CI]
    by (simp add: return_false_after_errors_switch)
qed

lemma generateCondForPow_constant:
  assumes "argOperands CI = ConstantFPValue CF # Exp # as"
  shows "generateCondForPow CI LibFunc_pow =
           (if fcmp FCMP_OLT (getValueAPF CF) (fcNormal 1)
               \<or> fcmp FCMP_OGT (getValueAPF CF) (fcNormal 255)
            then Inr None
            else Inr (Some (createCond_builder Exp FCMP_OGT (fcNormal 127))))"
  by (simp add: generateCondForPow_def getArgOperand_first [OF assms]
        getArgOperand_second [OF assms] convertToDouble_def createCond_builder_def Let_def)

lemma generateCondForPow_unknown:
  assumes "argOperands CI = Base # Exp # as" and "unknown_provenance Base"
  shows "generateCondForPow CI LibFunc_pow = Inr None"
  using assms(2)
  by (auto simp add: generateCondForPow_def getArgOperand_first [OF assms(1)]
        getArgOperand_second [OF assms(1)] unknown_provenance_def widened_from_def
        split: Value.splits Opcode.splits)

lemma generateCondForPow_widened:
  assumes "argOperands CI = Base # Exp # as" and "widened_from Base = Some w"
  shows "generateCondForPow CI LibFunc_pow = Inr (pow_int_cond Base Exp w)"
  using assms(2)
  by (auto simp add: generateCondForPow_def getArgOperand_first [OF assms(1)]
        getArgOperand_second [OF assms(1)] widened_from_def
        split: Value.splits Opcode.splits)

lemma pow_int_cond_other_width:
  "w \<notin> {8, 16, 32} \<Longrightarrow> pow_int_cond Base Exp w = None"
  by (simp add: pow_int_cond_def)

lemma pow_int_cond_width:
  assumes "(w, U) \<in> {(8, 128), (16, 64), (32, 32)}"
  shows "\<exists>c. pow_int_cond Base Exp w = Some c
           \<and> (\<forall>\<rho>. evalCond \<rho> c =
                 (fcmp FCMP_OLE (valueOf \<rho> Base) (fcZero False)
                  \<or> fcmp FCMP_OGT (valueOf \<rho> Exp) (fcNormal U)))"
  using assms by (auto simp add: pow_int_cond_def Let_def)


text \<open>
  Claim C3. The float and the extended-precision variants of the power function
  decline: no condition, no failure, the body as it was. For the double variant with a
  base and an exponent, a base that is neither a floating constant nor a conversion
  from an integer, and a conversion from an integer of a width other than 8, 16 or 32
  bits, decline in the same way; for a base converted from an integer of 8, 16 or 32
  bits the condition is ``base at most \<open>0\<close> or exponent above \<open>U\<close>'' with \<open>U\<close> 128, 64
  and 32, and with the three toggles enabled it goes to the rewrite.
\<close>

theorem pow_declines_or_integer_base:
  "(Fn \<in> {LibFunc_powf, LibFunc_powl} \<longrightarrow>
      generateCondForPow CI Fn = Inr None
      \<and> performCallErrors opts CI Fn Bs = Inr (False, Bs))
   \<and> (argOperands CI = Base # Exp # as \<longrightarrow>
        (unknown_provenance Base \<or> (\<exists>w. widened_from Base = Some w \<and> w \<notin> {8, 16, 32}) \<longrightarrow>
           generateCondForPow CI LibFunc_pow = Inr None
           \<and> performCallErrors opts CI LibFunc_pow Bs = Inr (False, Bs))
      \<and> (\<forall>(w, U) \<in> {(8, 128), (16, 64), (32, 32)}. widened_from Base = Some w \<longrightarrow>
           (\<exists>c. generateCondForPow CI LibFunc_pow = Inr (Some c)
              \<and> (\<forall>\<rho>. evalCond \<rho> c =
                    (fcmp FCMP_OLE (valueOf \<rho> Base) (fcZero False)
                     \<or> fcmp FCMP_OGT (valueOf \<rho> Exp) (fcNormal U)))
              \<and> (all_enabled opts \<longrightarrow>
                    performCallErrors opts CI LibFunc_pow Bs
                      = wrap_and_return_true CI (Some c) Bs))))"
proof (intro conjI impI)
  assume v: "Fn \<in> {LibFunc_powf, LibFunc_powl}"
  then have "Fn \<noteq> LibFunc_pow" by auto
  then show g: "generateCondForPow CI Fn = Inr None"
    by (rule generateCondForPow_not_pow)
  from v have "Fn \<in> {LibFunc_pow, LibFunc_powf, LibFunc_powl}" by auto
  then show "performCallErrors opts CI Fn Bs = Inr (False, Bs)"
    using g by (rule pow_declined_untouched)
next
  assume args: "argOperands CI = Base # Exp # as"
    and d: "unknown_provenance Base \<or> (\<exists>w. widened_from Base = Some w \<and> w \<notin> {8, 16, 32})"
  from d show g: "generateCondForPow CI LibFunc_pow = Inr None"
  proof
    assume "unknown_provenance Base"
    then show ?thesis by (rule generateCondForPow_unknown [OF args])
  next
    assume "\<exists>w. widened_from Base = Some w \<and> w \<notin> {8, 16, 32}"
    then obtain w where w: "widened_from Base = Some w" "w \<notin> {8, 16, 32}" by blast
    show ?thesis
      using generateCondForPow_widened [OF args w(1)] pow_int_cond_other_width [OF w(2)]
      by simp
  qed
  show "performCallErrors opts CI LibFunc_pow Bs = Inr (False, Bs)"
    using g by (intro pow_declined_untouched) simp_all
next
  assume args: "argOperands CI = Base # Exp # as"
  show "\<forall>(w, U) \<in> {(8, 128), (16, 64), (32, 32)}. widened_from Base = Some w \<longrightarrow>
           (\<exists>c. generateCondForPow CI LibFunc_pow = Inr (Some c)
              \<and> (\<forall>\<rho>. evalCond \<rho> c =
                    (fcmp FCMP_OLE (valueOf \<rho> Base) (fcZero False)
                     \<or> fcmp FCMP_OGT (valueOf \<rho> Exp) (fcNormal U)))
              \<and> (all_enabled opts \<longrightarrow>
                    performCallErrors opts CI LibFunc_pow Bs
                      = wrap_and_return_true CI (Some c) Bs))"
  proof (intro ballI, clarify)
    fix w :: nat and U :: rat
    assume wu: "(w, U) \<in> {(8, 128), (16, 64), (32, 32)}"
      and wf: "widened_from Base = Some w"
    from pow_int_cond_width [OF wu, of Base Exp]
    obtain c where c: "pow_int_cond Base Exp w = Some c"
      and ev: "\<forall>\<rho>. evalCond \<rho> c =
                 (fcmp FCMP_OLE (valueOf \<rho> Base) (fcZero False)
                  \<or> fcmp FCMP_OGT (valueOf \<rho> Exp) (fcNormal U))"
      by blast
    have g: "generateCondForPow CI LibFunc_pow = Inr (Some c)"
      using generateCondForPow_widened [OF args wf] c by simp
    have "performCallErrors opts CI LibFunc_pow Bs = wrap_and_return_true CI (Some c) Bs"
      if en: "all_enabled opts"
    proof -
      have "performCallErrors_switch opts CI LibFunc_pow = Inr (Break (Some c))"
        using errors_switch_pow_enabled [OF _ en, of LibFunc_pow CI] g by simp
      then show ?thesis by (rule wrap_after_errors_switch)
    qed
    with g ev show "\<exists>c. generateCondForPow CI LibFunc_pow = Inr (Some c)
              \<and> (\<forall>\<rho>. evalCond \<rho> c =
                    (fcmp FCMP_OLE (valueOf \<rho> Base) (fcZero False)
                     \<or> fcmp FCMP_OGT (valueOf \<rho> Exp) (fcNormal U)))
              \<and> (all_enabled opts \<longrightarrow>
                    performCallErrors opts CI LibFunc_pow Bs
                      = wrap_and_return_true CI (Some c) Bs)"
      by blast
  qed
qed

theorem pow_declines_or_integer_base_witness:
  "generateCondForPow (example_pow_call (OtherValue 0 DoubleTy)) LibFunc_powf = Inr None
   \<and> generateCondForPow (example_pow_call (OtherValue 0 DoubleTy)) LibFunc_pow = Inr None
   \<and> generateCondForPow (example_pow_call (InstructionValue 2 (UIToFP 64) DoubleTy)) LibFunc_pow
       = Inr None
   \<and> performCallErrors default_options
        (example_pow_call (InstructionValue 2 (UIToFP 64) DoubleTy)) LibFunc_pow [] = Inr (False, [])
   \<and> (\<exists>c. generateCondForPow (example_pow_call (InstructionValue 2 (SIToFP 8) DoubleTy)) LibFunc_pow
             = Inr (Some c)
        \<and> (\<forall>b e. evalCond (\<lambda>v. case v of InstructionValue a opc ty \<Rightarrow> fcNormal b
                                        | _ \<Rightarrow> fcNormal e) c
                  = (b \<le> 0 \<or> 128 < e)))"
proof -
  let ?u = "OtherValue 0 DoubleTy"
  let ?w64 = "InstructionValue 2 (UIToFP 64) DoubleTy"
  let ?w8 = "InstructionValue 2 (SIToFP 8) DoubleTy"
  have args: "argOperands (example_pow_call b) = b # OtherValue 1 DoubleTy # []" for b
    by (simp add: example_pow_call_def)
  have f: "LibFunc_powf \<in> {LibFunc_powf, LibFunc_powl}" by simp
  have u: "unknown_provenance ?u \<or> (\<exists>w. widened_from ?u = Some w \<and> w \<notin> {8, 16, 32})"
    by (simp add: unknown_provenance_def widened_from_def)
  have w64: "unknown_provenance ?w64 \<or> (\<exists>w. widened_from ?w64 = Some w \<and> w \<notin> {8, 16, 32})"
    by (simp add: unknown_provenance_def widened_from_def)
  have m8: "(8, 128) \<in> {(8::nat, 128::rat), (16, 64), (32, 32)}" by simp
  have w8: "widened_from ?w8 = Some 8" by (simp add: widened_from_def)
  note t = pow_declines_or_integer_base
  have 1: "generateCondForPow (example_pow_call ?u) LibFunc_powf = Inr None"
    using t [of LibFunc_powf "example_pow_call ?u" default_options "[]"] f by blast
  have 2: "generateCondForPow (example_pow_call ?u) LibFunc_pow = Inr None"
    using t [of LibFunc_pow "example_pow_call ?u" default_options "[]" ?u "OtherValue 1 DoubleTy" "[]"]
      args u by blast
  have 3: "generateCondForPow (example_pow_call ?w64) LibFunc_pow = Inr None
           \<and> performCallErrors default_options (example_pow_call ?w64) LibFunc_pow [] = Inr (False, [])"
    using t [of LibFunc_pow "example_pow_call ?w64" default_options "[]" ?w64 "OtherValue 1 DoubleTy" "[]"]
      args w64 by blast
  have "\<forall>(w, U) \<in> {(8, 128), (16, 64), (32, 32)}. widened_from ?w8 = Some w \<longrightarrow>
           (\<exists>c. generateCondForPow (example_pow_call ?w8) LibFunc_pow = Inr (Some c)
              \<and> (\<forall>\<rho>. evalCond \<rho> c =
                    (fcmp FCMP_OLE (valueOf \<rho> ?w8) (fcZero False)
                     \<or> fcmp FCMP_OGT (valueOf \<rho> (OtherValue 1 DoubleTy)) (fcNormal U)))
              \<and> (all_enabled default_options \<longrightarrow>
                    performCallErrors default_options (example_pow_call ?w8) LibFunc_pow []
                      = wrap_and_return_true (example_pow_call ?w8) (Some c) []))"
    using t [of LibFunc_pow "example_pow_call ?w8" default_options "[]" ?w8 "OtherValue 1 DoubleTy" "[]"]
      args by blast
  from bspec [OF this m8] w8
  obtain c where c: "generateCondForPow (example_pow_call ?w8) LibFunc_pow = Inr (Some c)"
    and ev: "\<And>\<rho>. evalCond \<rho> c =
                    (fcmp FCMP_OLE (valueOf \<rho> ?w8) (fcZero False)
                     \<or> fcmp FCMP_OGT (valueOf \<rho> (OtherValue 1 DoubleTy)) (fcNormal 128))"
    by auto
  have "evalCond (\<lambda>v. case v of InstructionValue a opc ty \<Rightarrow> fcNormal b | _ \<Rightarrow> fcNormal e) c
          = (b \<le> 0 \<or> 128 < e)" for b e
    by (auto simp add: ev fcmp_def)
  with c 1 2 3 show ?thesis by blast
qed

lemma fcmp_not_olt_iff_oge:
  "x \<noteq> fcNaN \<Longrightarrow> y \<noteq> fcNaN \<Longrightarrow> (\<not> fcmp FCMP_OLT x y) = fcmp FCMP_OGE x y"
  by (cases x; cases y) (auto simp add: fcmp_def)

lemma fcmp_not_ogt_iff_ole:
  "x \<noteq> fcNaN \<Longrightarrow> y \<noteq> fcNaN \<Longrightarrow> (\<not> fcmp FCMP_OGT x y) = fcmp FCMP_OLE x y"
  by (cases x; cases y) (auto simp add: fcmp_def)

text \<open>
  For a constant base that is not NaN the double variant declines unless the base lies
  between \<open>1\<close> and \<open>255\<close>, and builds ``exponent above \<open>127\<close>'' when it does.
\<close>

lemma generateCondForPow_constant_not_nan:
  assumes "argOperands CI = ConstantFPValue CF # Exp # as"
    and "getValueAPF CF \<noteq> fcNaN"
  shows "generateCondForPow CI LibFunc_pow =
           (if fcmp FCMP_OGE (getValueAPF CF) (fcNormal 1)
               \<and> fcmp FCMP_OLE (getValueAPF CF) (fcNormal 255)
            then Inr (Some (createCond_builder Exp FCMP_OGT (fcNormal 127)))
            else Inr None)"
  using fcmp_not_olt_iff_oge [OF assms(2), of "fcNormal 1"]
    fcmp_not_ogt_iff_ole [OF assms(2), of "fcNormal 255"]
  by (auto simp add: generateCondForPow_constant [OF assms(1)])

lemma generateCondForPow_constant_examples:
  "generateCondForPow (example_pow_call (ConstantFPValue (ConstantFP DoubleTy (fcNormal 2))))
     LibFunc_pow
     = Inr (Some (FCmp FCMP_OGT (OtherValue 1 DoubleTy) (ConstantFP DoubleTy (fcNormal 127))))"
  "generateCondForPow (example_pow_call (ConstantFPValue (ConstantFP DoubleTy (fcNormal (1 / 2)))))
     LibFunc_pow = Inr None"
  by (simp_all add: generateCondForPow_constant example_pow_call_def fcmp_def
        createCond_builder_def Let_def)

text \<open>
  Claim C2. A constant base that is NaN does not lie between \<open>1\<close> and \<open>255\<close>, and the
  double variant does not decline: both comparisons of the guard are false at NaN, the
  condition ``exponent above \<open>127\<close>'' is built and, with the three toggles enabled,
  goes to the rewrite.
\<close>

theorem pow_nan_constant_base_not_declined:
  "\<not> (fcmp FCMP_OGE fcNaN (fcNormal 1) \<and> fcmp FCMP_OLE fcNaN (fcNormal 255))
   \<and> generateCondForPow pow_nan_base_call LibFunc_pow
       = Inr (Some (FCmp FCMP_OGT (OtherValue 1 DoubleTy) (ConstantFP DoubleTy (fcNormal 127))))
   \<and> performCallErrors_switch default_options pow_nan_base_call LibFunc_pow
       = Inr (Break (Some (FCmp FCMP_OGT (OtherValue 1 DoubleTy)
                             (ConstantFP DoubleTy (fcNormal 127)))))"
proof -
  have g: "generateCondForPow pow_nan_base_call LibFunc_pow
       = Inr (Some (FCmp FCMP_OGT (OtherValue 1 DoubleTy) (ConstantFP DoubleTy (fcNormal 127))))"
    by (simp add: pow_nan_base_call_def generateCondForPow_constant example_pow_call_def
          fcmp_def createCond_builder_def Let_def)
  have en: "all_enabled default_options"
    by (simp add: all_enabled_def default_options_def)
  have "performCallErrors_switch default_options pow_nan_base_call LibFunc_pow
       = Inr (Break (Some (FCmp FCMP_OGT (OtherValue 1 DoubleTy)
                             (ConstantFP DoubleTy (fcNormal 127)))))"
    using errors_switch_pow_enabled [OF _ en, of LibFunc_pow pow_nan_base_call] g by simp
  with g show ?thesis by (simp add: fcmp_def)
qed

theorem pow_nan_constant_base_witness:
  "\<exists>c. generateCondForPow pow_nan_base_call LibFunc_pow = Inr (Some c)
     \<and> performCallErrors_switch default_options pow_nan_base_call LibFunc_pow
         = Inr (Break (Some c))
     \<and> (\<forall>\<rho>. evalCond \<rho> c = fcmp FCMP_OGT (\<rho> (OtherValue 1 DoubleTy)) (fcNormal 127))"
  using pow_nan_constant_base_not_declined by simp

subsection \<open>The candidate check\<close>

lemma checkCandidate_with_argument:
  assumes "argOperands CI = a # as"
  shows "checkCandidate TLI CI WorkList =
           Inr (if spec_admitted TLI CI then WorkList @ [CI] else WorkList)"
  by (auto simp add: checkCandidate_def spec_admitted_def use_empty_def
        getArgOperand_first [OF assms] assms Let_def split: option.splits)

lemma checkCandidate_used_result:
  "0 < numUses CI \<Longrightarrow> checkCandidate TLI CI WorkList = Inr WorkList"
  by (simp add: checkCandidate_def use_empty_def)

lemma checkCandidate_returns:
  assumes "checkCandidate TLI CI WorkList = Inr WorkList'"
  shows "WorkList' = (if spec_admitted TLI CI then WorkList @ [CI] else WorkList)"
proof (cases "argOperands CI")
  case Nil
  then have "\<not> spec_admitted TLI CI" by (simp add: spec_admitted_def)
  moreover have "WorkList' = WorkList"
    using assms Nil
    by (auto simp add: checkCandidate_def getArgOperand_def split: if_splits option.splits)
  ultimately show ?thesis by simp
next
  case (Cons a as)
  then show ?thesis using assms checkCandidate_with_argument [OF Cons, of TLI WorkList] by simp
qed

lemma checkCandidate_admitted:
  assumes "checkCandidate TLI CI WorkList = Inr (WorkList @ [CI])"
  shows "spec_admitted TLI CI"
  using checkCandidate_returns [OF assms] by (auto split: if_splits)


text \<open>
  Claim C6. A call of a recognized and available library function that takes no
  argument, not marked no-builtin and with an unused result, is not skipped: the check
  reads the type of a first argument that is not there and fails. (A call with at least
  one argument is added exactly when the four conditions hold, and is skipped otherwise:
  \<open>checkCandidate_with_argument\<close>.)
\<close>

theorem checkCandidate_no_argument_fails:
  "\<not> spec_admitted example_TLI no_argument_call
   \<and> checkCandidate example_TLI no_argument_call [] = Inl OutOfBounds"
  by (simp add: spec_admitted_def checkCandidate_def no_argument_call_def example_TLI_def
        use_empty_def getArgOperand_def)

theorem checkCandidate_no_argument_witness:
  "\<forall>WorkList'. checkCandidate example_TLI no_argument_call [] \<noteq> Inr WorkList'"
  using checkCandidate_no_argument_fails by simp

subsection \<open>Dispatch by category\<close>

lemma shrinkWrapCI_Some: "\<exists>Bs'. shrinkWrapCI CI (Some c) Bs = Inr Bs'"
  by (simp add: shrinkWrapCI_def Let_def split: prod.splits)

lemma wrap_and_return_true_Some:
  "\<exists>Bs'. wrap_and_return_true CI (Some c) Bs = Inr (True, Bs')"
  using shrinkWrapCI_Some [of CI c Bs] by (auto simp add: wrap_and_return_true_def)

lemma domain_switch_family:
  assumes "argOperands CI = a # as" and "Fn \<in> domain_only_funcs"
  shows "\<exists>c. performCallDomainErrorOnly_switch CI Fn = Inr (Break (Some c))"
proof -
  consider
    (asin) "Fn \<in> {LibFunc_acos, LibFunc_acosf, LibFunc_acosl,
                    LibFunc_asin, LibFunc_asinf, LibFunc_asinl}"
  | (sin) "Fn \<in> {LibFunc_cos, LibFunc_cosf, LibFunc_cosl,
                   LibFunc_sin, LibFunc_sinf, LibFunc_sinl}"
  | (acosh) "Fn \<in> {LibFunc_acosh, LibFunc_acoshf, LibFunc_acoshl}"
  | (sqrt) "Fn \<in> {LibFunc_sqrt, LibFunc_sqrtf, LibFunc_sqrtl}"
    using assms(2) unfolding domain_only_funcs_def by blast
  then show ?thesis
  proof cases
    case asin
    show ?thesis using domain_switch_asin [OF assms(1) asin] by blast
  next
    case sin
    show ?thesis using domain_switch_sin [OF assms(1) sin] by blast
  next
    case acosh
    show ?thesis using domain_switch_acosh [OF assms(1) acosh] by blast
  next
    case sqrt
    show ?thesis using domain_switch_sqrt [OF assms(1) sqrt] by blast
  qed
qed

lemma domain_switch_other:
  "Fn \<notin> domain_only_funcs \<Longrightarrow> performCallDomainErrorOnly_switch CI Fn = Inr ReturnFalse"
  by (simp add: domain_only_funcs_def performCallDomainErrorOnly_switch_def)

lemma range_switch_other:
  "Fn \<notin> range_only_funcs \<Longrightarrow> performCallRangeErrorOnly_switch CI Fn = Inr ReturnFalse"
  by (simp add: range_only_funcs_def performCallRangeErrorOnly_switch_def)

lemma errors_switch_other:
  "Fn \<notin> domain_pole_funcs \<Longrightarrow> Fn \<notin> pow_funcs \<Longrightarrow>
   performCallErrors_switch opts CI Fn = Inr ReturnFalse"
  by (simp add: domain_pole_funcs_def pow_funcs_def performCallErrors_switch_def)

lemma range_funcs_table:
  assumes "Fn \<in> range_only_funcs"
  shows "Fn \<in> fst ` set two_sided_range_table \<or> Fn \<in> fst ` set one_sided_range_table"
  using assms
  by (simp add: range_only_funcs_def two_sided_range_table_def one_sided_range_table_def) blast

lemma range_switch_family:
  assumes "argOperands CI = a # as" and "Fn \<in> range_only_funcs"
  shows "\<exists>c. performCallRangeErrorOnly_switch CI Fn = Inr (Break (Some c))"
proof -
  from range_funcs_table [OF assms(2)] consider
    (two) L U where "(Fn, L, U) \<in> set two_sided_range_table"
  | (one) U where "(Fn, U) \<in> set one_sided_range_table"
    by force
  then show ?thesis
  proof cases
    case two
    show ?thesis
      using two_sided_range_table_switch [OF two, of CI]
        generateTwoRangeCond_table [OF assms(1) two]
      by (simp add: break_with_Inr)
  next
    case one
    show ?thesis
      using one_sided_range_table_switch [OF one, of CI]
        generateOneRangeCond_table [OF assms(1) one]
      by (simp add: break_with_Inr)
  qed
qed

lemma domain_pole_switch_family:
  assumes "argOperands CI = a # as" and "Fn \<in> domain_pole_funcs"
    and "LibCallsShrinkWrapDoDomainError opts" and "LibCallsShrinkWrapDoPoleError opts"
  shows "\<exists>c. performCallErrors_switch opts CI Fn = Inr (Break (Some c))"
proof -
  consider
    (atanh) "Fn \<in> {LibFunc_atanh, LibFunc_atanhf, LibFunc_atanhl}"
  | (log) "Fn \<in> {LibFunc_log, LibFunc_logf, LibFunc_logl,
                  LibFunc_log10, LibFunc_log10f, LibFunc_log10l,
                  LibFunc_log2, LibFunc_log2f, LibFunc_log2l,
                  LibFunc_logb, LibFunc_logbf, LibFunc_logbl}"
  | (log1p) "Fn \<in> {LibFunc_log1p, LibFunc_log1pf, LibFunc_log1pl}"
    using assms(2) unfolding domain_pole_funcs_def by blast
  then show ?thesis
  proof cases
    case atanh
    show ?thesis using errors_switch_atanh [OF assms(1,3,4) atanh] by blast
  next
    case log
    show ?thesis using errors_switch_log [OF assms(1,3,4) log] by blast
  next
    case log1p
    show ?thesis using errors_switch_log1p [OF assms(1,3,4) log1p] by blast
  qed
qed

lemma domain_pole_switch_disabled:
  assumes "Fn \<in> domain_pole_funcs"
    and "\<not> LibCallsShrinkWrapDoDomainError opts \<or> \<not> LibCallsShrinkWrapDoPoleError opts"
  shows "performCallErrors_switch opts CI Fn = Inr ReturnFalse"
  using assms by (auto simp add: domain_pole_funcs_def performCallErrors_switch_def)

lemma families_disjoint:
  "domain_only_funcs \<inter> range_only_funcs = {}"
  "domain_only_funcs \<inter> domain_pole_funcs = {}"
  "domain_only_funcs \<inter> pow_funcs = {}"
  "range_only_funcs \<inter> domain_pole_funcs = {}"
  "range_only_funcs \<inter> pow_funcs = {}"
  "domain_pole_funcs \<inter> pow_funcs = {}"
  by (simp_all add: domain_only_funcs_def range_only_funcs_def domain_pole_funcs_def pow_funcs_def)



lemma performCallDomainErrorOnly_family:
  assumes "argOperands CI = a # as" and "Fn \<in> domain_only_funcs"
  shows "\<exists>c. \<forall>Bs. performCallDomainErrorOnly CI Fn Bs = wrap_and_return_true CI (Some c) Bs"
  using domain_switch_family [OF assms] by (auto simp add: performCallDomainErrorOnly_def)

lemma performCallDomainErrorOnly_other:
  "Fn \<notin> domain_only_funcs \<Longrightarrow> performCallDomainErrorOnly CI Fn Bs = Inr (False, Bs)"
  by (simp add: performCallDomainErrorOnly_def domain_switch_other)

lemma performCallRangeErrorOnly_family:
  assumes "argOperands CI = a # as" and "Fn \<in> range_only_funcs"
  shows "\<exists>c. \<forall>Bs. performCallRangeErrorOnly CI Fn Bs = wrap_and_return_true CI (Some c) Bs"
  using range_switch_family [OF assms] by (auto simp add: performCallRangeErrorOnly_def)

lemma performCallRangeErrorOnly_other:
  "Fn \<notin> range_only_funcs \<Longrightarrow> performCallRangeErrorOnly CI Fn Bs = Inr (False, Bs)"
  by (simp add: performCallRangeErrorOnly_def range_switch_other)

lemma performCallErrors_other:
  "Fn \<notin> domain_pole_funcs \<Longrightarrow> Fn \<notin> pow_funcs \<Longrightarrow>
   performCallErrors opts CI Fn Bs = Inr (False, Bs)"
  by (simp add: performCallErrors_def errors_switch_other)

lemma performCallErrors_domain_pole:
  assumes "argOperands CI = a # as" and "Fn \<in> domain_pole_funcs"
    and "LibCallsShrinkWrapDoDomainError opts" and "LibCallsShrinkWrapDoPoleError opts"
  shows "\<exists>c. \<forall>Bs. performCallErrors opts CI Fn Bs = wrap_and_return_true CI (Some c) Bs"
  using domain_pole_switch_family [OF assms] by (auto simp add: performCallErrors_def)

lemma performCallErrors_domain_pole_disabled:
  assumes "Fn \<in> domain_pole_funcs"
    and "\<not> LibCallsShrinkWrapDoDomainError opts \<or> \<not> LibCallsShrinkWrapDoPoleError opts"
  shows "performCallErrors opts CI Fn Bs = Inr (False, Bs)"
  using domain_pole_switch_disabled [OF assms] by (simp add: performCallErrors_def)

lemma performCallErrors_pow_disabled:
  assumes "Fn \<in> pow_funcs" and "\<not> all_enabled opts"
  shows "performCallErrors opts CI Fn Bs = Inr (False, Bs)"
  using errors_switch_pow_disabled [OF _ assms(2), of Fn CI] assms(1)
  by (simp add: performCallErrors_def pow_funcs_def)

lemma generateCondForPow_fails:
  assumes "generateCondForPow CI Fn = Inl e"
  shows "e = OutOfBounds \<and> Fn = LibFunc_pow \<and> length (argOperands CI) < 2"
  using assms
  by (auto simp add: generateCondForPow_def getArgOperand_def Let_def
        split: if_splits sum.splits Value.splits Opcode.splits)

lemma performCallErrors_pow_enabled:
  assumes "Fn \<in> pow_funcs" and "all_enabled opts"
  shows "(generateCondForPow CI Fn = Inr None \<and> (\<forall>Bs. performCallErrors opts CI Fn Bs = Inr (False, Bs)))
       \<or> (\<exists>c. generateCondForPow CI Fn = Inr (Some c)
              \<and> (\<forall>Bs. performCallErrors opts CI Fn Bs = wrap_and_return_true CI (Some c) Bs))
       \<or> (Fn = LibFunc_pow \<and> length (argOperands CI) < 2
              \<and> (\<forall>Bs. performCallErrors opts CI Fn Bs = Inl OutOfBounds))"
proof -
  have m: "Fn \<in> {LibFunc_pow, LibFunc_powf, LibFunc_powl}"
    using assms(1) by (simp add: pow_funcs_def)
  note sw = errors_switch_pow_enabled [OF m assms(2), of CI]
  show ?thesis
  proof (cases "generateCondForPow CI Fn")
    case (Inl e)
    with generateCondForPow_fails [OF Inl] sw show ?thesis
      by (simp add: performCallErrors_def)
  next
    case (Inr r)
    with sw show ?thesis
      by (cases r) (simp_all add: performCallErrors_def)
  qed
qed

lemma family_not_first:
  "Fn \<in> domain_only_funcs \<union> range_only_funcs \<union> domain_pole_funcs \<union> pow_funcs \<Longrightarrow>
   Fn \<noteq> LibFunc_other 0"
  by (auto simp add: domain_only_funcs_def range_only_funcs_def domain_pole_funcs_def
        pow_funcs_def)

lemma perform_first_libfunc:
  assumes "getCalledFunction CI = Some Callee"
    and "getLibFunc TLI Callee = Some (LibFunc_other 0)"
  shows "perform opts TLI CI Bs = Inl AssertFunc"
  by (simp add: perform_def assms)

lemma perform_resolved:
  assumes "getCalledFunction CI = Some Callee" and "getLibFunc TLI Callee = Some Fn"
    and "Fn \<noteq> LibFunc_other 0"
  shows "perform opts TLI CI Bs =
     (case (if LibCallsShrinkWrapDoDomainError opts
            then performCallDomainErrorOnly CI Fn Bs
            else Inr (False, Bs)) of
        Inl e \<Rightarrow> Inl e
      | Inr (True, Bs') \<Rightarrow> Inr (True, Bs')
      | Inr (False, Bs') \<Rightarrow>
          (case (if LibCallsShrinkWrapDoRangeError opts
                 then performCallRangeErrorOnly CI Fn Bs'
                 else Inr (False, Bs')) of
             Inl e \<Rightarrow> Inl e
           | Inr (True, Bs'') \<Rightarrow> Inr (True, Bs'')
           | Inr (False, Bs'') \<Rightarrow> performCallErrors opts CI Fn Bs''))"
  by (simp add: perform_def assms)

lemma perform_domain_first:
  assumes "getCalledFunction CI = Some Callee" and "getLibFunc TLI Callee = Some Fn"
    and "LibCallsShrinkWrapDoDomainError opts"
    and "performCallDomainErrorOnly CI Fn Bs = Inr (True, Bs')"
  shows "perform opts TLI CI Bs = Inr (True, Bs')"
proof -
  have "Fn \<in> domain_only_funcs"
    using assms(4) performCallDomainErrorOnly_other [of Fn CI Bs] by auto
  then have "Fn \<noteq> LibFunc_other 0" by (intro family_not_first) simp
  then show ?thesis
    by (simp add: perform_resolved [OF assms(1,2)] assms(3,4))
qed

lemma perform_range_second:
  assumes "getCalledFunction CI = Some Callee" and "getLibFunc TLI Callee = Some Fn"
    and "\<not> LibCallsShrinkWrapDoDomainError opts
         \<or> performCallDomainErrorOnly CI Fn Bs = Inr (False, Bs)"
    and "LibCallsShrinkWrapDoRangeError opts"
    and "performCallRangeErrorOnly CI Fn Bs = Inr (True, Bs')"
  shows "perform opts TLI CI Bs = Inr (True, Bs')"
proof -
  have "Fn \<in> range_only_funcs"
    using assms(5) performCallRangeErrorOnly_other [of Fn CI Bs] by auto
  then have "Fn \<noteq> LibFunc_other 0" by (intro family_not_first) simp
  then show ?thesis
    using assms(3) by (auto simp add: perform_resolved [OF assms(1,2)] assms(4,5))
qed

lemma perform_combined_last:
  assumes "getCalledFunction CI = Some Callee" and "getLibFunc TLI Callee = Some Fn"
    and "\<not> LibCallsShrinkWrapDoDomainError opts
         \<or> performCallDomainErrorOnly CI Fn Bs = Inr (False, Bs)"
    and "\<not> LibCallsShrinkWrapDoRangeError opts
         \<or> performCallRangeErrorOnly CI Fn Bs = Inr (False, Bs)"
  shows "perform opts TLI CI Bs =
           (if Fn = LibFunc_other 0 then Inl AssertFunc
            else performCallErrors opts CI Fn Bs)"
proof (cases "Fn = LibFunc_other 0")
  case True
  then show ?thesis using perform_first_libfunc [OF assms(1)] assms(2) by simp
next
  case False
  then show ?thesis
    using assms(3,4) by (auto simp add: perform_resolved [OF assms(1,2) False])
qed

lemma perform_wrap:
  assumes "getCalledFunction CI = Some Callee" and "getLibFunc TLI Callee = Some Fn"
  shows "LibCallsShrinkWrapDoDomainError opts \<Longrightarrow>
         performCallDomainErrorOnly CI Fn Bs = wrap_and_return_true CI (Some c) Bs \<Longrightarrow>
         perform opts TLI CI Bs = wrap_and_return_true CI (Some c) Bs"
    and "\<not> LibCallsShrinkWrapDoDomainError opts
           \<or> performCallDomainErrorOnly CI Fn Bs = Inr (False, Bs) \<Longrightarrow>
         LibCallsShrinkWrapDoRangeError opts \<Longrightarrow>
         performCallRangeErrorOnly CI Fn Bs = wrap_and_return_true CI (Some c) Bs \<Longrightarrow>
         perform opts TLI CI Bs = wrap_and_return_true CI (Some c) Bs"
proof -
  obtain Bs' where w: "wrap_and_return_true CI (Some c) Bs = Inr (True, Bs')"
    using wrap_and_return_true_Some by blast
  show "LibCallsShrinkWrapDoDomainError opts \<Longrightarrow>
         performCallDomainErrorOnly CI Fn Bs = wrap_and_return_true CI (Some c) Bs \<Longrightarrow>
         perform opts TLI CI Bs = wrap_and_return_true CI (Some c) Bs"
    using perform_domain_first [OF assms, of opts Bs Bs'] w by simp
  show "\<not> LibCallsShrinkWrapDoDomainError opts
           \<or> performCallDomainErrorOnly CI Fn Bs = Inr (False, Bs) \<Longrightarrow>
         LibCallsShrinkWrapDoRangeError opts \<Longrightarrow>
         performCallRangeErrorOnly CI Fn Bs = wrap_and_return_true CI (Some c) Bs \<Longrightarrow>
         perform opts TLI CI Bs = wrap_and_return_true CI (Some c) Bs"
    using perform_range_second [OF assms, of opts Bs Bs'] w by simp
qed

lemma perform_domain_enabled:
  assumes "getCalledFunction CI = Some Callee" and "getLibFunc TLI Callee = Some Fn"
    and "argOperands CI = a # as" and "Fn \<in> domain_only_funcs"
    and "LibCallsShrinkWrapDoDomainError opts"
  shows "\<exists>c. \<forall>Bs. perform opts TLI CI Bs = wrap_and_return_true CI (Some c) Bs
               \<and> perform opts TLI CI Bs = performCallDomainErrorOnly CI Fn Bs"
proof -
  obtain c where c: "\<And>Bs. performCallDomainErrorOnly CI Fn Bs = wrap_and_return_true CI (Some c) Bs"
    using performCallDomainErrorOnly_family [OF assms(3,4)] by blast
  have "perform opts TLI CI Bs = wrap_and_return_true CI (Some c) Bs" for Bs
    by (rule perform_wrap(1) [OF assms(1,2,5) c])
  with c show ?thesis by auto
qed

lemma perform_not_first_combined:
  assumes "getCalledFunction CI = Some Callee" and "getLibFunc TLI Callee = Some Fn"
    and "Fn \<noteq> LibFunc_other 0"
    and "Fn \<notin> domain_only_funcs \<or> \<not> LibCallsShrinkWrapDoDomainError opts"
    and "Fn \<notin> range_only_funcs \<or> \<not> LibCallsShrinkWrapDoRangeError opts"
  shows "perform opts TLI CI Bs = performCallErrors opts CI Fn Bs"
proof -
  have d: "\<not> LibCallsShrinkWrapDoDomainError opts
           \<or> performCallDomainErrorOnly CI Fn Bs = Inr (False, Bs)"
    using assms(4) performCallDomainErrorOnly_other [of Fn CI Bs] by blast
  have r: "\<not> LibCallsShrinkWrapDoRangeError opts
           \<or> performCallRangeErrorOnly CI Fn Bs = Inr (False, Bs)"
    using assms(5) performCallRangeErrorOnly_other [of Fn CI Bs] by blast
  show ?thesis
    using perform_combined_last [OF assms(1,2) d r] assms(3) by simp
qed

lemma perform_domain_disabled:
  assumes "getCalledFunction CI = Some Callee" and "getLibFunc TLI Callee = Some Fn"
    and "Fn \<in> domain_only_funcs" and "\<not> LibCallsShrinkWrapDoDomainError opts"
  shows "perform opts TLI CI Bs = Inr (False, Bs)"
proof -
  have nz: "Fn \<noteq> LibFunc_other 0" using assms(3) by (intro family_not_first) simp
  have o: "Fn \<notin> range_only_funcs" "Fn \<notin> domain_pole_funcs" "Fn \<notin> pow_funcs"
    using assms(3) families_disjoint by blast+
  show ?thesis
    using perform_not_first_combined [OF assms(1,2) nz, of opts Bs] assms(4) o
    by (simp add: performCallErrors_other)
qed

lemma perform_range_enabled:
  assumes "getCalledFunction CI = Some Callee" and "getLibFunc TLI Callee = Some Fn"
    and "argOperands CI = a # as" and "Fn \<in> range_only_funcs"
    and "LibCallsShrinkWrapDoRangeError opts"
  shows "\<exists>c. \<forall>Bs. perform opts TLI CI Bs = wrap_and_return_true CI (Some c) Bs
               \<and> perform opts TLI CI Bs = performCallRangeErrorOnly CI Fn Bs"
proof -
  obtain c where c: "\<And>Bs. performCallRangeErrorOnly CI Fn Bs = wrap_and_return_true CI (Some c) Bs"
    using performCallRangeErrorOnly_family [OF assms(3,4)] by blast
  have "Fn \<notin> domain_only_funcs"
    using assms(4) families_disjoint by blast
  then have d: "\<not> LibCallsShrinkWrapDoDomainError opts
                \<or> performCallDomainErrorOnly CI Fn Bs = Inr (False, Bs)" for Bs
    by (simp add: performCallDomainErrorOnly_other)
  have "perform opts TLI CI Bs = wrap_and_return_true CI (Some c) Bs" for Bs
    by (rule perform_wrap(2) [OF assms(1,2) d assms(5) c])
  with c show ?thesis by auto
qed

lemma perform_range_disabled:
  assumes "getCalledFunction CI = Some Callee" and "getLibFunc TLI Callee = Some Fn"
    and "Fn \<in> range_only_funcs" and "\<not> LibCallsShrinkWrapDoRangeError opts"
  shows "perform opts TLI CI Bs = Inr (False, Bs)"
proof -
  have nz: "Fn \<noteq> LibFunc_other 0" using assms(3) by (intro family_not_first) simp
  have o: "Fn \<notin> domain_only_funcs" "Fn \<notin> domain_pole_funcs" "Fn \<notin> pow_funcs"
    using assms(3) families_disjoint by blast+
  show ?thesis
    using perform_not_first_combined [OF assms(1,2) nz, of opts Bs] assms(4) o
    by (simp add: performCallErrors_other)
qed

lemma perform_combined:
  assumes "getCalledFunction CI = Some Callee" and "getLibFunc TLI Callee = Some Fn"
    and "Fn \<in> domain_pole_funcs \<union> pow_funcs"
  shows "perform opts TLI CI Bs = performCallErrors opts CI Fn Bs"
proof -
  have nz: "Fn \<noteq> LibFunc_other 0" using assms(3) by (intro family_not_first) auto
  have "Fn \<notin> domain_only_funcs" "Fn \<notin> range_only_funcs"
    using assms(3) families_disjoint by blast+
  then show ?thesis
    using perform_not_first_combined [OF assms(1,2) nz, of opts Bs] by simp
qed

lemma perform_no_family:
  assumes "getCalledFunction CI = Some Callee" and "getLibFunc TLI Callee = Some Fn"
    and "Fn \<noteq> LibFunc_other 0"
    and "Fn \<notin> domain_only_funcs" and "Fn \<notin> range_only_funcs"
    and "Fn \<notin> domain_pole_funcs" and "Fn \<notin> pow_funcs"
  shows "perform opts TLI CI Bs = Inr (False, Bs)"
  using perform_not_first_combined [OF assms(1,2,3), of opts Bs] assms(4-7)
  by (simp add: performCallErrors_other)

text \<open>
  Claim C7. For a call whose callee resolves to a library function: when the domain
  toggle is on and the domain-only category builds a condition, its result is the
  result of \<^verbatim>\<open>perform\<close>; otherwise, when the range toggle is on and the range-only
  category builds one, that is the result; otherwise the result is that of the combined
  category (for the function whose enumerator is \<open>0\<close> the assertion on \<^verbatim>\<open>Func\<close> fails
  before the dispatch). By family, for a call with a first argument: a domain-only function is
  rewritten by the domain-only category when the domain toggle is on and left alone
  when it is off; a range-only function likewise with the range toggle; a function of
  the inverse hyperbolic tangent, logarithm and \<^verbatim>\<open>log1p\<close> families is rewritten by the
  combined category when the domain and the pole toggle are both on and left alone when
  either is off; a power function goes to the combined category and is left alone when
  any of the three toggles is off.
\<close>

theorem dispatch_priority_and_toggles:
  assumes callee: "getCalledFunction CI = Some Callee"
    and fn: "getLibFunc TLI Callee = Some Fn"
    and args: "argOperands CI = a # as"
  shows "(LibCallsShrinkWrapDoDomainError opts \<longrightarrow>
            (\<forall>Bs'. performCallDomainErrorOnly CI Fn Bs = Inr (True, Bs') \<longrightarrow>
                   perform opts TLI CI Bs = Inr (True, Bs')))
       \<and> ((\<not> LibCallsShrinkWrapDoDomainError opts
             \<or> performCallDomainErrorOnly CI Fn Bs = Inr (False, Bs))
            \<and> LibCallsShrinkWrapDoRangeError opts \<longrightarrow>
            (\<forall>Bs'. performCallRangeErrorOnly CI Fn Bs = Inr (True, Bs') \<longrightarrow>
                   perform opts TLI CI Bs = Inr (True, Bs')))
       \<and> ((\<not> LibCallsShrinkWrapDoDomainError opts
             \<or> performCallDomainErrorOnly CI Fn Bs = Inr (False, Bs))
            \<and> (\<not> LibCallsShrinkWrapDoRangeError opts
                \<or> performCallRangeErrorOnly CI Fn Bs = Inr (False, Bs)) \<longrightarrow>
            perform opts TLI CI Bs =
              (if Fn = LibFunc_other 0 then Inl AssertFunc
               else performCallErrors opts CI Fn Bs))
       \<and> (Fn \<in> domain_only_funcs \<longrightarrow>
            (if LibCallsShrinkWrapDoDomainError opts
             then perform opts TLI CI Bs = performCallDomainErrorOnly CI Fn Bs
                  \<and> (\<exists>Bs'. perform opts TLI CI Bs = Inr (True, Bs'))
             else perform opts TLI CI Bs = Inr (False, Bs)))
       \<and> (Fn \<in> range_only_funcs \<longrightarrow>
            (if LibCallsShrinkWrapDoRangeError opts
             then perform opts TLI CI Bs = performCallRangeErrorOnly CI Fn Bs
                  \<and> (\<exists>Bs'. perform opts TLI CI Bs = Inr (True, Bs'))
             else perform opts TLI CI Bs = Inr (False, Bs)))
       \<and> (Fn \<in> domain_pole_funcs \<longrightarrow>
            (if LibCallsShrinkWrapDoDomainError opts \<and> LibCallsShrinkWrapDoPoleError opts
             then perform opts TLI CI Bs = performCallErrors opts CI Fn Bs
                  \<and> (\<exists>Bs'. perform opts TLI CI Bs = Inr (True, Bs'))
             else perform opts TLI CI Bs = Inr (False, Bs)))
       \<and> (Fn \<in> pow_funcs \<longrightarrow>
            perform opts TLI CI Bs = performCallErrors opts CI Fn Bs
            \<and> (\<not> all_enabled opts \<longrightarrow> perform opts TLI CI Bs = Inr (False, Bs)))"
proof (intro conjI impI allI)
  fix Bs'
  assume "LibCallsShrinkWrapDoDomainError opts"
    and "performCallDomainErrorOnly CI Fn Bs = Inr (True, Bs')"
  then show "perform opts TLI CI Bs = Inr (True, Bs')"
    by (rule perform_domain_first [OF callee fn])
next
  fix Bs'
  assume "(\<not> LibCallsShrinkWrapDoDomainError opts
             \<or> performCallDomainErrorOnly CI Fn Bs = Inr (False, Bs))
            \<and> LibCallsShrinkWrapDoRangeError opts"
    and "performCallRangeErrorOnly CI Fn Bs = Inr (True, Bs')"
  then show "perform opts TLI CI Bs = Inr (True, Bs')"
    using perform_range_second [OF callee fn, of opts Bs Bs'] by blast
next
  assume "(\<not> LibCallsShrinkWrapDoDomainError opts
             \<or> performCallDomainErrorOnly CI Fn Bs = Inr (False, Bs))
            \<and> (\<not> LibCallsShrinkWrapDoRangeError opts
                \<or> performCallRangeErrorOnly CI Fn Bs = Inr (False, Bs))"
  then show "perform opts TLI CI Bs =
              (if Fn = LibFunc_other 0 then Inl AssertFunc
               else performCallErrors opts CI Fn Bs)"
    using perform_combined_last [OF callee fn, of opts Bs] by blast
next
  assume f: "Fn \<in> domain_only_funcs"
  show "if LibCallsShrinkWrapDoDomainError opts
        then perform opts TLI CI Bs = performCallDomainErrorOnly CI Fn Bs
             \<and> (\<exists>Bs'. perform opts TLI CI Bs = Inr (True, Bs'))
        else perform opts TLI CI Bs = Inr (False, Bs)"
  proof (cases "LibCallsShrinkWrapDoDomainError opts")
    case True
    then show ?thesis
      using perform_domain_enabled [OF callee fn args f True]
        wrap_and_return_true_Some [of CI _ Bs]
      by (metis (full_types))
  next
    case False
    then show ?thesis
      using perform_domain_disabled [OF callee fn f False] by simp
  qed
next
  assume f: "Fn \<in> range_only_funcs"
  show "if LibCallsShrinkWrapDoRangeError opts
        then perform opts TLI CI Bs = performCallRangeErrorOnly CI Fn Bs
             \<and> (\<exists>Bs'. perform opts TLI CI Bs = Inr (True, Bs'))
        else perform opts TLI CI Bs = Inr (False, Bs)"
  proof (cases "LibCallsShrinkWrapDoRangeError opts")
    case True
    then show ?thesis
      using perform_range_enabled [OF callee fn args f True]
        wrap_and_return_true_Some [of CI _ Bs]
      by (metis (full_types))
  next
    case False
    then show ?thesis
      using perform_range_disabled [OF callee fn f False] by simp
  qed
next
  assume f: "Fn \<in> domain_pole_funcs"
  then have c: "perform opts TLI CI Bs = performCallErrors opts CI Fn Bs"
    by (intro perform_combined [OF callee fn]) simp
  show "if LibCallsShrinkWrapDoDomainError opts \<and> LibCallsShrinkWrapDoPoleError opts
        then perform opts TLI CI Bs = performCallErrors opts CI Fn Bs
             \<and> (\<exists>Bs'. perform opts TLI CI Bs = Inr (True, Bs'))
        else perform opts TLI CI Bs = Inr (False, Bs)"
  proof (cases "LibCallsShrinkWrapDoDomainError opts \<and> LibCallsShrinkWrapDoPoleError opts")
    case True
    then obtain c' where "performCallErrors opts CI Fn Bs = wrap_and_return_true CI (Some c') Bs"
      using performCallErrors_domain_pole [OF args f] by blast
    then show ?thesis
      using True c wrap_and_return_true_Some [of CI c' Bs] by auto
  next
    case False
    then show ?thesis
      using c performCallErrors_domain_pole_disabled [OF f, of opts CI Bs] by auto
  qed
next
  assume f: "Fn \<in> pow_funcs"
  then show c: "perform opts TLI CI Bs = performCallErrors opts CI Fn Bs"
    by (intro perform_combined [OF callee fn]) simp
  assume "\<not> all_enabled opts"
  then show "perform opts TLI CI Bs = Inr (False, Bs)"
    using c performCallErrors_pow_disabled [OF f] by simp
qed


theorem dispatch_priority_and_toggles_witness:
  "perform (default_options\<lparr>LibCallsShrinkWrapDoDomainError := False\<rparr>) example_TLI
       (example_call ''sqrt'') [] = Inr (False, [])
   \<and> (\<exists>Bs'. perform default_options example_TLI (example_call ''sqrt'') [] = Inr (True, Bs'))
   \<and> perform (default_options\<lparr>LibCallsShrinkWrapDoRangeError := False\<rparr>) example_TLI
       (example_call ''exp'') [] = Inr (False, [])
   \<and> perform (default_options\<lparr>LibCallsShrinkWrapDoPoleError := False\<rparr>) example_TLI
       (example_call ''log'') [] = Inr (False, [])
   \<and> (\<exists>Bs'. perform (default_options\<lparr>LibCallsShrinkWrapDoRangeError := False\<rparr>) example_TLI
       (example_call ''log'') [] = Inr (True, Bs'))
   \<and> perform (default_options\<lparr>LibCallsShrinkWrapDoRangeError := False\<rparr>) example_TLI
       (example_pow_call (ConstantFPValue (ConstantFP DoubleTy (fcNormal 2)))) []
       = Inr (False, [])"
proof -
  have callee: "getCalledFunction (example_call n) = Some n" for n
    by (simp add: example_call_def)
  have args: "argOperands (example_call n) = example_arg # []" for n
    by (simp add: example_call_def)
  have pcallee: "getCalledFunction (example_pow_call b) = Some ''pow''" for b
    by (simp add: example_pow_call_def)
  have pargs: "argOperands (example_pow_call b) = b # [OtherValue 1 DoubleTy]" for b
    by (simp add: example_pow_call_def)
  have fn: "getLibFunc example_TLI ''sqrt'' = Some LibFunc_sqrt"
    "getLibFunc example_TLI ''exp'' = Some LibFunc_exp"
    "getLibFunc example_TLI ''log'' = Some LibFunc_log"
    "getLibFunc example_TLI ''pow'' = Some LibFunc_pow"
    by (simp_all add: example_TLI_def)
  have fam: "LibFunc_sqrt \<in> domain_only_funcs" "LibFunc_exp \<in> range_only_funcs"
    "LibFunc_log \<in> domain_pole_funcs" "LibFunc_pow \<in> pow_funcs"
    by (simp_all add: domain_only_funcs_def range_only_funcs_def domain_pole_funcs_def
          pow_funcs_def)
  have on: "LibCallsShrinkWrapDoDomainError default_options"
    "LibCallsShrinkWrapDoRangeError default_options"
    "LibCallsShrinkWrapDoPoleError default_options"
    by (simp_all add: default_options_def)
  note t = dispatch_priority_and_toggles
  have 1: "perform (default_options\<lparr>LibCallsShrinkWrapDoDomainError := False\<rparr>) example_TLI
       (example_call ''sqrt'') [] = Inr (False, [])"
    using t [where opts = "default_options\<lparr>LibCallsShrinkWrapDoDomainError := False\<rparr>" and Bs = "[]",
        OF callee fn(1) args, THEN conjunct2, THEN conjunct2, THEN conjunct2,
        THEN conjunct1, THEN mp, OF fam(1)]
    by simp
  have 2: "\<exists>Bs'. perform default_options example_TLI (example_call ''sqrt'') [] = Inr (True, Bs')"
    by (rule t [where opts = default_options and Bs = "[]",
        OF callee fn(1) args, THEN conjunct2, THEN conjunct2, THEN conjunct2,
        THEN conjunct1, THEN mp, OF fam(1), unfolded if_P [OF on(1)], THEN conjunct2])
  have 3: "perform (default_options\<lparr>LibCallsShrinkWrapDoRangeError := False\<rparr>) example_TLI
       (example_call ''exp'') [] = Inr (False, [])"
    using t [where opts = "default_options\<lparr>LibCallsShrinkWrapDoRangeError := False\<rparr>" and Bs = "[]",
        OF callee fn(2) args, THEN conjunct2, THEN conjunct2, THEN conjunct2,
        THEN conjunct2, THEN conjunct1, THEN mp, OF fam(2)]
    by simp
  have 4: "perform (default_options\<lparr>LibCallsShrinkWrapDoPoleError := False\<rparr>) example_TLI
       (example_call ''log'') [] = Inr (False, [])"
    using t [where opts = "default_options\<lparr>LibCallsShrinkWrapDoPoleError := False\<rparr>" and Bs = "[]",
        OF callee fn(3) args, THEN conjunct2, THEN conjunct2, THEN conjunct2,
        THEN conjunct2, THEN conjunct2, THEN conjunct1, THEN mp, OF fam(3)]
    by simp
  have o: "LibCallsShrinkWrapDoDomainError (default_options\<lparr>LibCallsShrinkWrapDoRangeError := False\<rparr>)
             \<and> LibCallsShrinkWrapDoPoleError (default_options\<lparr>LibCallsShrinkWrapDoRangeError := False\<rparr>)"
    by (simp add: default_options_def)
  have 5: "\<exists>Bs'. perform (default_options\<lparr>LibCallsShrinkWrapDoRangeError := False\<rparr>) example_TLI
       (example_call ''log'') [] = Inr (True, Bs')"
    by (rule t [where opts = "default_options\<lparr>LibCallsShrinkWrapDoRangeError := False\<rparr>"
          and Bs = "[]",
        OF callee fn(3) args, THEN conjunct2, THEN conjunct2, THEN conjunct2,
        THEN conjunct2, THEN conjunct2, THEN conjunct1, THEN mp, OF fam(3),
        unfolded if_P [OF o], THEN conjunct2])
  have na: "\<not> all_enabled (default_options\<lparr>LibCallsShrinkWrapDoRangeError := False\<rparr>)"
    by (simp add: all_enabled_def)
  have 6: "perform (default_options\<lparr>LibCallsShrinkWrapDoRangeError := False\<rparr>) example_TLI
       (example_pow_call (ConstantFPValue (ConstantFP DoubleTy (fcNormal 2)))) []
       = Inr (False, [])"
    by (rule t [where opts = "default_options\<lparr>LibCallsShrinkWrapDoRangeError := False\<rparr>"
          and Bs = "[]",
        OF pcallee fn(4) pargs, THEN conjunct2, THEN conjunct2, THEN conjunct2,
        THEN conjunct2, THEN conjunct2, THEN conjunct2, THEN mp, OF fam(4),
        THEN conjunct2, THEN mp, OF na])
  from 1 2 3 4 5 6 show ?thesis by blast
qed

subsection \<open>Failures on a call of the work list\<close>

lemma spec_admitted_resolved:
  assumes "spec_admitted TLI CI"
  obtains Callee Fn a as where "getCalledFunction CI = Some Callee"
    and "getLibFunc TLI Callee = Some Fn" and "has TLI Fn" and "argOperands CI = a # as"
  using assms
  by (auto simp add: spec_admitted_def split: option.splits list.splits)

lemma perform_outcome:
  assumes callee: "getCalledFunction CI = Some Callee"
    and fn: "getLibFunc TLI Callee = Some Fn"
    and args: "argOperands CI = a # as"
    and nz: "Fn \<noteq> LibFunc_other 0"
  shows "(\<forall>Bs. perform opts TLI CI Bs = Inr (False, Bs))
       \<or> (\<exists>c. \<forall>Bs. perform opts TLI CI Bs = wrap_and_return_true CI (Some c) Bs)
       \<or> (Fn = LibFunc_pow \<and> length (argOperands CI) < 2
            \<and> (\<forall>Bs. perform opts TLI CI Bs = Inl OutOfBounds))"
proof -
  consider (dom) "Fn \<in> domain_only_funcs" | (rng) "Fn \<in> range_only_funcs"
    | (dp) "Fn \<in> domain_pole_funcs" | (pow) "Fn \<in> pow_funcs"
    | (none) "Fn \<notin> domain_only_funcs" "Fn \<notin> range_only_funcs"
        "Fn \<notin> domain_pole_funcs" "Fn \<notin> pow_funcs"
    by blast
  then show ?thesis
  proof cases
    case dom
    show ?thesis
    proof (cases "LibCallsShrinkWrapDoDomainError opts")
      case True
      then show ?thesis using perform_domain_enabled [OF callee fn args dom True] by blast
    next
      case False
      then show ?thesis using perform_domain_disabled [OF callee fn dom False] by blast
    qed
  next
    case rng
    show ?thesis
    proof (cases "LibCallsShrinkWrapDoRangeError opts")
      case True
      then show ?thesis using perform_range_enabled [OF callee fn args rng True] by blast
    next
      case False
      then show ?thesis using perform_range_disabled [OF callee fn rng False] by blast
    qed
  next
    case dp
    then have c: "perform opts TLI CI Bs = performCallErrors opts CI Fn Bs" for Bs
      by (intro perform_combined [OF callee fn]) simp
    show ?thesis
    proof (cases "LibCallsShrinkWrapDoDomainError opts \<and> LibCallsShrinkWrapDoPoleError opts")
      case True
      then show ?thesis using performCallErrors_domain_pole [OF args dp, of opts] c by auto
    next
      case False
      then show ?thesis using performCallErrors_domain_pole_disabled [OF dp, of opts CI] c by auto
    qed
  next
    case pow
    then have c: "perform opts TLI CI Bs = performCallErrors opts CI Fn Bs" for Bs
      by (intro perform_combined [OF callee fn]) simp
    show ?thesis
    proof (cases "all_enabled opts")
      case True
      then show ?thesis using performCallErrors_pow_enabled [OF pow True, of CI] c by auto
    next
      case False
      then show ?thesis using performCallErrors_pow_disabled [OF pow False, of CI] c by auto
    qed
  next
    case none
    then show ?thesis using perform_no_family [OF callee fn nz none] by blast
  qed
qed

lemma range_switch_no_failure:
  assumes "argOperands CI = a # as"
  shows "performCallRangeErrorOnly_switch CI Fn = Inr ReturnFalse
       \<or> (\<exists>c. performCallRangeErrorOnly_switch CI Fn = Inr (Break (Some c)))"
  using range_switch_family [OF assms, of Fn] range_switch_other [of Fn CI] by blast

lemma domain_switch_no_failure:
  assumes "argOperands CI = a # as"
  shows "performCallDomainErrorOnly_switch CI Fn = Inr ReturnFalse
       \<or> (\<exists>c. performCallDomainErrorOnly_switch CI Fn = Inr (Break (Some c)))"
  using domain_switch_family [OF assms, of Fn] domain_switch_other [of Fn CI] by blast

lemma break_with_never_null: "break_with r \<noteq> Inr (Break None)"
  by (cases r) (simp_all add: break_with_def)

lemma errors_switch_never_null:
  "performCallErrors_switch opts CI Fn \<noteq> Inr (Break None)"
  unfolding performCallErrors_switch_def
  by (simp only: break_with_never_null sum.inject sum.distinct SwitchResult.distinct
        SwitchResult.inject option.distinct simp_thms
        split: if_split sum.split option.split)

text \<open>
  For a call that the candidate check adds to the work list, the callee is there and
  resolves to a library function; no switch leaves with an empty condition and the
  range-only switch fails in no way. When the function is not the first of the
  enumeration, \<^verbatim>\<open>perform\<close> fails none of the checks of this file, and the only failure
  left is that of reading the second argument of a power call that has none. When it is
  the first, the assertion on \<^verbatim>\<open>Func\<close> fails.
\<close>

lemma admitted_call_failures:
  assumes adm: "checkCandidate TLI CI WorkList = Inr (WorkList @ [CI])"
  shows "\<exists>Callee Fn. getCalledFunction CI = Some Callee \<and> getLibFunc TLI Callee = Some Fn
            \<and> performCallDomainErrorOnly_switch CI Fn \<notin> {Inl Unreachable, Inr (Break None)}
            \<and> performCallRangeErrorOnly_switch CI Fn \<notin> {Inl Unreachable, Inr (Break None)}
            \<and> performCallErrors_switch opts CI Fn \<notin> {Inl Unreachable, Inr (Break None)}
            \<and> (Fn = LibFunc_other 0 \<longrightarrow> perform opts TLI CI Bs = Inl AssertFunc)
            \<and> (Fn \<noteq> LibFunc_other 0 \<longrightarrow>
                  perform opts TLI CI Bs
                    \<notin> {Inl AssertCallee, Inl AssertFunc, Inl Unreachable, Inl AssertCond,
                        Inl UninitializedFunc}
                  \<and> (\<forall>e. perform opts TLI CI Bs = Inl e \<longrightarrow>
                         e = OutOfBounds \<and> length (argOperands CI) < 2))"
proof -
  from checkCandidate_admitted [OF adm]
  obtain Callee Fn a as where callee: "getCalledFunction CI = Some Callee"
    and fn: "getLibFunc TLI Callee = Some Fn" and args: "argOperands CI = a # as"
    by (rule spec_admitted_resolved)
  have d: "performCallDomainErrorOnly_switch CI Fn \<notin> {Inl Unreachable, Inr (Break None)}"
    using domain_switch_no_failure [OF args, of Fn] by auto
  have r: "performCallRangeErrorOnly_switch CI Fn \<notin> {Inl Unreachable, Inr (Break None)}"
    using range_switch_no_failure [OF args, of Fn] by auto
  have first: "perform opts TLI CI Bs = Inl AssertFunc" if "Fn = LibFunc_other 0"
    using perform_first_libfunc [OF callee] fn that by simp
  have p: "perform opts TLI CI Bs = Inr (False, Bs)
         \<or> (\<exists>Bs'. perform opts TLI CI Bs = Inr (True, Bs'))
         \<or> (length (argOperands CI) < 2 \<and> perform opts TLI CI Bs = Inl OutOfBounds)"
    if nz: "Fn \<noteq> LibFunc_other 0"
    using perform_outcome [OF callee fn args nz, of opts]
      wrap_and_return_true_Some [of CI _ Bs] by metis
  have "performCallErrors_switch opts CI Fn \<noteq> Inl Unreachable"
  proof
    assume u: "performCallErrors_switch opts CI Fn = Inl Unreachable"
    then have pe: "performCallErrors opts CI Fn Bs = Inl Unreachable"
      by (simp add: performCallErrors_def)
    have fam: "Fn \<in> domain_pole_funcs \<union> pow_funcs"
      using u errors_switch_other [of Fn opts CI] by auto
    then have nz: "Fn \<noteq> LibFunc_other 0" by (intro family_not_first) auto
    have "perform opts TLI CI Bs = Inl Unreachable"
      using perform_combined [OF callee fn fam, of opts Bs] pe by simp
    with p [OF nz] show False by auto
  qed
  then have e: "performCallErrors_switch opts CI Fn \<notin> {Inl Unreachable, Inr (Break None)}"
    using errors_switch_never_null [of opts CI Fn] by simp
  have ok: "perform opts TLI CI Bs
              \<notin> {Inl AssertCallee, Inl AssertFunc, Inl Unreachable, Inl AssertCond,
                  Inl UninitializedFunc}
            \<and> (\<forall>e. perform opts TLI CI Bs = Inl e \<longrightarrow>
                   e = OutOfBounds \<and> length (argOperands CI) < 2)"
    if nz: "Fn \<noteq> LibFunc_other 0"
    using p [OF nz] by auto
  show ?thesis using callee fn d r e first ok by blast
qed

text \<open>
  Claim C10. The candidate check adds to the work list a call, with a floating-point
  first argument and an unused result, of the function that the target resolves to the
  first of the enumeration. \<^verbatim>\<open>perform\<close> does not look at the result of \<^verbatim>\<open>getLibFunc\<close>
  and asserts on the integer value of \<^verbatim>\<open>Func\<close>, which is \<open>0\<close>: the assertion fails on
  this call of the work list, whatever the toggles and the body, and the pass ends in
  this failure on a function that holds such a call.
\<close>

theorem admitted_first_libfunc_fails_assertion:
  "checkCandidate example_TLI first_libfunc_call [] = Inr ([] @ [first_libfunc_call])
   \<and> getLibFunc example_TLI ''first_libfunc'' = Some (LibFunc_other 0)
   \<and> perform opts example_TLI first_libfunc_call Bs = Inl AssertFunc
   \<and> runImpl opts (two_call_function ''first_libfunc'' ''sqrt'') example_TLI = Inl AssertFunc"
proof -
  have callee: "getCalledFunction first_libfunc_call = Some ''first_libfunc''"
    by (simp add: first_libfunc_call_def)
  have fn: "getLibFunc example_TLI ''first_libfunc'' = Some (LibFunc_other 0)"
    by (simp add: example_TLI_def)
  have adm: "checkCandidate example_TLI first_libfunc_call [] = Inr ([] @ [first_libfunc_call])"
    by (simp add: checkCandidate_def first_libfunc_call_def example_TLI_def example_arg_def
          use_empty_def getArgOperand_def)
  have v: "visit example_TLI (blocks (two_call_function ''first_libfunc'' ''sqrt'')) []
             = Inr [example_call ''first_libfunc'', (example_call ''sqrt'')\<lparr>ci_addr := 2\<rparr>]"
    by (simp add: two_call_function_def checkCandidate_def example_call_def example_TLI_def
          example_arg_def use_empty_def getArgOperand_def)
  have "getCalledFunction (example_call ''first_libfunc'') = Some ''first_libfunc''"
    by (simp add: example_call_def)
  then have p: "perform opts example_TLI (example_call ''first_libfunc'') B = Inl AssertFunc"
    for B
    using fn by (rule perform_first_libfunc)
  have "runImpl opts (two_call_function ''first_libfunc'' ''sqrt'') example_TLI
          = Inl AssertFunc"
    by (simp add: runImpl_def v p) (simp add: two_call_function_def)
  with adm show ?thesis
    using fn perform_first_libfunc [OF callee fn] by simp
qed

theorem admitted_first_libfunc_witness:
  "perform default_options example_TLI first_libfunc_call
     [\<lparr>bb_label = 0, bb_name = ''entry'', bb_insts = [Call first_libfunc_call],
       bb_term = OtherTerminator 0\<rparr>]
   \<in> {Inl AssertCallee, Inl AssertFunc, Inl Unreachable, Inl AssertCond}"
  using admitted_first_libfunc_fails_assertion by simp

subsection \<open>The rewrite of the block\<close>

lemma foldr_max_upper: "x \<in> set xs \<Longrightarrow> x \<le> foldr max xs (0::nat)"
  by (induction xs) (auto simp add: max_def)

lemma freshLabel_greater: "B \<in> set Bs \<Longrightarrow> bb_label B < freshLabel Bs"
  using foldr_max_upper [of "bb_label B" "map bb_label Bs"]
  by (simp add: freshLabel_def less_Suc_eq_le)

lemma splitBefore_none:
  "\<forall>i \<in> set is. instAddr i \<noteq> a \<Longrightarrow> splitBefore a is = None"
  by (induction "is") simp_all

lemma splitBefore_found:
  "\<forall>j \<in> set xs. instAddr j \<noteq> a \<Longrightarrow> instAddr i = a \<Longrightarrow>
   splitBefore a (xs @ i # ys) = Some (xs, i # ys)"
  by (induction xs) simp_all

lemma splitBlocks_located:
  assumes "\<forall>P \<in> set pre. \<forall>i \<in> set (bb_insts P). instAddr i \<noteq> a"
    and "bb_insts B = xs @ i # ys"
    and "\<forall>j \<in> set xs. instAddr j \<noteq> a" and "instAddr i = a"
  shows "splitBlocks c a unr w thenL tailL (pre @ B # post) =
           pre @ [B\<lparr>bb_insts := xs, bb_term := CondBr c thenL tailL w\<rparr>,
                  \<lparr>bb_label = thenL, bb_name = [], bb_insts = [],
                    bb_term = (if unr then UnreachableInst else Br tailL)\<rparr>,
                  \<lparr>bb_label = tailL, bb_name = bb_name B @ ''.split'', bb_insts = i # ys,
                    bb_term = bb_term B\<rparr>] @ post"
  using assms(1)
proof (induction pre)
  case Nil
  show ?case
    using splitBefore_found [OF assms(3,4), of ys] assms(2) by simp
next
  case (Cons P pre)
  then show ?case
    by (simp add: splitBefore_none)
qed

lemma setName_other: "\<forall>B \<in> set Bs. bb_label B \<noteq> l \<Longrightarrow> setName l n Bs = Bs"
  by (simp add: setName_def map_idI)

lemma setName_append: "setName l n (xs @ ys) = setName l n xs @ setName l n ys"
  by (simp add: setName_def)

lemma setName_Cons:
  "setName l n (B # Bs) = (if bb_label B = l then B\<lparr>bb_name := n\<rparr> else B) # setName l n Bs"
  by (simp add: setName_def)

lemma getSingleSuccessor_skip:
  "\<forall>B \<in> set pre. bb_label B \<noteq> l \<Longrightarrow>
   getSingleSuccessor l (pre @ Bs) = getSingleSuccessor l Bs"
  by (induction pre) simp_all

lemma removeFromParent_other:
  "\<forall>B \<in> set Bs. \<forall>i \<in> set (bb_insts B). instAddr i \<noteq> ci_addr CI \<Longrightarrow>
   removeFromParent CI Bs = Bs"
  by (simp add: removeFromParent_def map_idI)

lemma removeFromParent_append:
  "removeFromParent CI (xs @ ys) = removeFromParent CI xs @ removeFromParent CI ys"
  by (simp add: removeFromParent_def)

lemma removeFromParent_Cons:
  "removeFromParent CI (B # Bs) =
     B\<lparr>bb_insts := filter (\<lambda>i. instAddr i \<noteq> ci_addr CI) (bb_insts B)\<rparr> # removeFromParent CI Bs"
  by (simp add: removeFromParent_def)

lemma insertAtFirstInsertionPt_other:
  "\<forall>B \<in> set Bs. bb_label B \<noteq> l \<Longrightarrow> insertAtFirstInsertionPt l i Bs = Bs"
  by (simp add: insertAtFirstInsertionPt_def map_idI)

lemma insertAtFirstInsertionPt_append:
  "insertAtFirstInsertionPt l i (xs @ ys) =
     insertAtFirstInsertionPt l i xs @ insertAtFirstInsertionPt l i ys"
  by (simp add: insertAtFirstInsertionPt_def)

lemma insertAtFirstInsertionPt_Cons:
  "insertAtFirstInsertionPt l i (B # Bs) =
     (if bb_label B = l then B\<lparr>bb_insts := i # bb_insts B\<rparr> else B)
     # insertAtFirstInsertionPt l i Bs"
  by (simp add: insertAtFirstInsertionPt_def)

lemma filter_other_addr:
  "\<forall>i \<in> set is. instAddr i \<noteq> a \<Longrightarrow> filter (\<lambda>i. instAddr i \<noteq> a) is = is"
  by (simp add: filter_id_conv)

lemma shrinkWrapCI_located:
  assumes Bs: "Bs = pre @ B # post"
    and B: "bb_insts B = xs @ Call CI # ys"
    and others: "\<forall>P \<in> set pre \<union> set post. \<forall>i \<in> set (bb_insts P). instAddr i \<noteq> ci_addr CI"
    and rest: "\<forall>i \<in> set xs \<union> set ys. instAddr i \<noteq> ci_addr CI"
  shows "shrinkWrapCI CI (Some c) Bs =
           Inr (pre @ [B\<lparr>bb_insts := xs,
                         bb_term := CondBr c (Suc (freshLabel Bs)) (freshLabel Bs)
                                      (Some (BranchWeights 1 2000))\<rparr>,
                       \<lparr>bb_label = Suc (freshLabel Bs), bb_name = ''cdce.call'',
                         bb_insts = [Call CI], bb_term = Br (freshLabel Bs)\<rparr>,
                       \<lparr>bb_label = freshLabel Bs, bb_name = ''cdce.end'',
                         bb_insts = ys, bb_term = bb_term B\<rparr>] @ post)"
proof -
  let ?tl = "freshLabel Bs" and ?th = "Suc (freshLabel Bs)"
  let ?w = "Some (BranchWeights 1 2000)"
  let ?H = "B\<lparr>bb_insts := xs, bb_term := CondBr c ?th ?tl ?w\<rparr>"
  have lab: "\<forall>P \<in> set pre \<union> set post. bb_label P \<noteq> ?tl \<and> bb_label P \<noteq> ?th"
    and labB: "bb_label B \<noteq> ?tl" "bb_label B \<noteq> ?th"
    using freshLabel_greater [of _ Bs] unfolding Bs by fastforce+
  have pre_lab: "\<forall>P \<in> set pre. bb_label P \<noteq> ?tl" "\<forall>P \<in> set pre. bb_label P \<noteq> ?th"
    and post_lab: "\<forall>P \<in> set post. bb_label P \<noteq> ?tl" "\<forall>P \<in> set post. bb_label P \<noteq> ?th"
    using lab by auto
  have pre_addr: "\<forall>P \<in> set pre. \<forall>i \<in> set (bb_insts P). instAddr i \<noteq> ci_addr CI"
    and post_addr: "\<forall>P \<in> set post. \<forall>i \<in> set (bb_insts P). instAddr i \<noteq> ci_addr CI"
    using others by auto
  have xs_addr: "\<forall>i \<in> set xs. instAddr i \<noteq> ci_addr CI"
    and ys_addr: "\<forall>i \<in> set ys. instAddr i \<noteq> ci_addr CI"
    using rest by auto
  define Bs1 where "Bs1 = pre @ [?H,
        \<lparr>bb_label = ?th, bb_name = [], bb_insts = [], bb_term = Br ?tl\<rparr>,
        \<lparr>bb_label = ?tl, bb_name = bb_name B @ ''.split'', bb_insts = Call CI # ys,
          bb_term = bb_term B\<rparr>] @ post"
  have split: "SplitBlockAndInsertIfThen c CI False ?w Bs = (?th, Bs1)"
    using splitBlocks_located [OF pre_addr B xs_addr, of c False ?w ?th ?tl post]
    by (simp add: SplitBlockAndInsertIfThen_def Let_def Bs Bs1_def)
  define Bs2 where "Bs2 = pre @ [?H,
        \<lparr>bb_label = ?th, bb_name = ''cdce.call'', bb_insts = [], bb_term = Br ?tl\<rparr>,
        \<lparr>bb_label = ?tl, bb_name = bb_name B @ ''.split'', bb_insts = Call CI # ys,
          bb_term = bb_term B\<rparr>] @ post"
  have name1: "setName ?th ''cdce.call'' Bs1 = Bs2"
    using labB
    by (simp add: Bs1_def Bs2_def setName_append setName_Cons
          setName_other [OF pre_lab(2)] setName_other [OF post_lab(2)])
  have succ: "getSingleSuccessor ?th Bs2 = Some ?tl"
    using labB by (simp add: Bs2_def getSingleSuccessor_skip [OF pre_lab(2)])
  define Bs3 where "Bs3 = pre @ [?H,
        \<lparr>bb_label = ?th, bb_name = ''cdce.call'', bb_insts = [], bb_term = Br ?tl\<rparr>,
        \<lparr>bb_label = ?tl, bb_name = ''cdce.end'', bb_insts = Call CI # ys,
          bb_term = bb_term B\<rparr>] @ post"
  have name2: "setName ?tl ''cdce.end'' Bs2 = Bs3"
    using labB
    by (simp add: Bs2_def Bs3_def setName_append setName_Cons
          setName_other [OF pre_lab(1)] setName_other [OF post_lab(1)])
  define Bs4 where "Bs4 = pre @ [?H,
        \<lparr>bb_label = ?th, bb_name = ''cdce.call'', bb_insts = [], bb_term = Br ?tl\<rparr>,
        \<lparr>bb_label = ?tl, bb_name = ''cdce.end'', bb_insts = ys, bb_term = bb_term B\<rparr>] @ post"
  have remove: "removeFromParent CI Bs3 = Bs4"
    by (simp add: Bs3_def Bs4_def removeFromParent_append removeFromParent_Cons
          removeFromParent_other [OF pre_addr] removeFromParent_other [OF post_addr]
          filter_other_addr [OF xs_addr] filter_other_addr [OF ys_addr])
  have insert: "insertAtFirstInsertionPt ?th (Call CI) Bs4 =
          pre @ [?H,
            \<lparr>bb_label = ?th, bb_name = ''cdce.call'', bb_insts = [Call CI], bb_term = Br ?tl\<rparr>,
            \<lparr>bb_label = ?tl, bb_name = ''cdce.end'', bb_insts = ys, bb_term = bb_term B\<rparr>]
          @ post"
    using labB
    by (simp add: Bs4_def insertAtFirstInsertionPt_append insertAtFirstInsertionPt_Cons
          insertAtFirstInsertionPt_other [OF pre_lab(2)]
          insertAtFirstInsertionPt_other [OF post_lab(2)])
  show ?thesis
    by (simp only: shrinkWrapCI_def createBranchWeights_def option.case Let_def split
          prod.case name1 succ name2 remove insert)
qed


lemma wrap_and_return_true_result:
  assumes "wrap_and_return_true CI Cond Bs = Inr (b, Bs')"
  shows "b \<and> (\<exists>c. Cond = Some c \<and> shrinkWrapCI CI (Some c) Bs = Inr Bs')"
  using assms
  by (cases Cond) (auto simp add: wrap_and_return_true_def shrinkWrapCI_def split: sum.splits)

lemma performCallDomainErrorOnly_result:
  assumes "performCallDomainErrorOnly CI Fn Bs = Inr (b, Bs')"
  shows "(\<not> b \<and> Bs' = Bs) \<or> (b \<and> (\<exists>c. shrinkWrapCI CI (Some c) Bs = Inr Bs'))"
proof (cases "performCallDomainErrorOnly_switch CI Fn")
  case (Inl e)
  then show ?thesis using assms by (simp add: performCallDomainErrorOnly_def)
next
  case (Inr r)
  then show ?thesis
    using assms wrap_and_return_true_result [of CI _ Bs b Bs']
    by (cases r) (auto simp add: performCallDomainErrorOnly_def)
qed

lemma performCallRangeErrorOnly_result:
  assumes "performCallRangeErrorOnly CI Fn Bs = Inr (b, Bs')"
  shows "(\<not> b \<and> Bs' = Bs) \<or> (b \<and> (\<exists>c. shrinkWrapCI CI (Some c) Bs = Inr Bs'))"
proof (cases "performCallRangeErrorOnly_switch CI Fn")
  case (Inl e)
  then show ?thesis using assms by (simp add: performCallRangeErrorOnly_def)
next
  case (Inr r)
  then show ?thesis
    using assms wrap_and_return_true_result [of CI _ Bs b Bs']
    by (cases r) (auto simp add: performCallRangeErrorOnly_def)
qed

lemma performCallErrors_result:
  assumes "performCallErrors opts CI Fn Bs = Inr (b, Bs')"
  shows "(\<not> b \<and> Bs' = Bs) \<or> (b \<and> (\<exists>c. shrinkWrapCI CI (Some c) Bs = Inr Bs'))"
proof (cases "performCallErrors_switch opts CI Fn")
  case (Inl e)
  then show ?thesis using assms by (simp add: performCallErrors_def)
next
  case (Inr r)
  then show ?thesis
    using assms wrap_and_return_true_result [of CI _ Bs b Bs']
    by (cases r) (auto simp add: performCallErrors_def split: option.splits)
qed

lemma perform_result:
  assumes "perform opts TLI CI Bs = Inr (b, Bs')"
  shows "(\<not> b \<and> Bs' = Bs) \<or> (b \<and> (\<exists>c. shrinkWrapCI CI (Some c) Bs = Inr Bs'))"
proof -
  obtain Callee Fn where callee: "getCalledFunction CI = Some Callee"
    and fn: "getLibFunc TLI Callee = Some Fn" and nz: "Fn \<noteq> LibFunc_other 0"
    using assms by (auto simp add: perform_def split: option.splits if_splits)
  let ?D = "if LibCallsShrinkWrapDoDomainError opts
            then performCallDomainErrorOnly CI Fn Bs else Inr (False, Bs)"
  let ?R = "if LibCallsShrinkWrapDoRangeError opts
            then performCallRangeErrorOnly CI Fn Bs else Inr (False, Bs)"
  note p = perform_resolved [OF callee fn nz, of opts Bs]
  show ?thesis
  proof (cases ?D)
    case (Inl e)
    then show ?thesis using assms p by simp
  next
    case (Inr d)
    obtain bd Bd where d: "d = (bd, Bd)" by (cases d)
    have dres: "(\<not> bd \<and> Bd = Bs) \<or> (bd \<and> (\<exists>c. shrinkWrapCI CI (Some c) Bs = Inr Bd))"
      using Inr d performCallDomainErrorOnly_result [of CI Fn Bs bd Bd]
      by (auto split: if_splits)
    show ?thesis
    proof (cases bd)
      case True
      then show ?thesis using assms p Inr d dres by simp
    next
      case False
      then have Bd: "Bd = Bs" using dres by simp
      show ?thesis
      proof (cases ?R)
        case (Inl e)
        then show ?thesis using assms p \<open>?D = Inr d\<close> d False Bd by simp
      next
        case (Inr r)
        obtain br Br where r: "r = (br, Br)" by (cases r)
        have rres: "(\<not> br \<and> Br = Bs) \<or> (br \<and> (\<exists>c. shrinkWrapCI CI (Some c) Bs = Inr Br))"
          using Inr r performCallRangeErrorOnly_result [of CI Fn Bs br Br]
          by (auto split: if_splits)
        show ?thesis
        proof (cases br)
          case True
          then show ?thesis using assms p \<open>?D = Inr d\<close> d False Bd Inr r rres by simp
        next
          case f: False
          then have "Br = Bs" using rres by simp
          then have "perform opts TLI CI Bs = performCallErrors opts CI Fn Bs"
            using p \<open>?D = Inr d\<close> d False Bd Inr r f by simp
          then show ?thesis
            using assms performCallErrors_result [of opts CI Fn Bs b Bs'] by simp
        qed
      qed
    qed
  qed
qed

text \<open>
  Claim C8. When \<^verbatim>\<open>perform\<close> rewrites a call (it returns true), and the call stands in
  block \<open>B\<close> of the body between the instructions \<open>xs\<close> and \<open>ys\<close>, the new body is
  the old one with \<open>B\<close> replaced by three blocks: \<open>B\<close> cut after \<open>xs\<close>, ending in a
  conditional branch on the condition with the weights \<open>1\<close> and \<open>2000\<close>, whose true
  successor is the new block \<^verbatim>\<open>cdce.call\<close> that holds the call alone, and whose false
  successor is the block \<^verbatim>\<open>cdce.end\<close> that holds \<open>ys\<close> and the old terminator. The
  weight \<open>1\<close> is that of the path on which the call runs, \<open>2000\<close> that of the path that
  skips it.
\<close>

theorem rewrite_attaches_branch_weights:
  assumes run: "perform opts TLI CI Bs = Inr (True, Bs')"
    and Bs: "Bs = pre @ B # post"
    and B: "bb_insts B = xs @ Call CI # ys"
    and others: "\<forall>P \<in> set pre \<union> set post. \<forall>i \<in> set (bb_insts P). instAddr i \<noteq> ci_addr CI"
    and rest: "\<forall>i \<in> set xs \<union> set ys. instAddr i \<noteq> ci_addr CI"
  shows "\<exists>c. Bs' = pre @ [B\<lparr>bb_insts := xs,
                             bb_term := CondBr c (Suc (freshLabel Bs)) (freshLabel Bs)
                                          (Some (BranchWeights 1 2000))\<rparr>,
                           \<lparr>bb_label = Suc (freshLabel Bs), bb_name = ''cdce.call'',
                             bb_insts = [Call CI], bb_term = Br (freshLabel Bs)\<rparr>,
                           \<lparr>bb_label = freshLabel Bs, bb_name = ''cdce.end'',
                             bb_insts = ys, bb_term = bb_term B\<rparr>] @ post"
proof -
  from perform_result [OF run]
  obtain c where "shrinkWrapCI CI (Some c) Bs = Inr Bs'" by auto
  then show ?thesis
    using shrinkWrapCI_located [OF Bs B others rest, of c] by auto
qed

theorem rewrite_attaches_branch_weights_witness:
  "\<exists>c. perform default_options example_TLI (example_call ''sqrt'') (example_blocks ''sqrt'') =
      Inr (True,
        [\<lparr>bb_label = 0, bb_name = ''entry'', bb_insts = [OtherInstruction 10],
           bb_term = CondBr c 2 1 (Some (BranchWeights 1 2000))\<rparr>,
         \<lparr>bb_label = 2, bb_name = ''cdce.call'', bb_insts = [Call (example_call ''sqrt'')],
           bb_term = Br 1\<rparr>,
         \<lparr>bb_label = 1, bb_name = ''cdce.end'', bb_insts = [OtherInstruction 11],
           bb_term = OtherTerminator 0\<rparr>])"
proof -
  let ?CI = "example_call ''sqrt''"
  let ?B = "\<lparr>bb_label = 0, bb_name = ''entry'',
             bb_insts = [OtherInstruction 10, Call ?CI, OtherInstruction 11],
             bb_term = OtherTerminator 0\<rparr>"
  have callee: "getCalledFunction ?CI = Some ''sqrt''"
    and args: "argOperands ?CI = example_arg # []"
    by (simp_all add: example_call_def)
  have fn: "getLibFunc example_TLI ''sqrt'' = Some LibFunc_sqrt"
    by (simp add: example_TLI_def)
  have "LibFunc_sqrt \<in> domain_only_funcs" by (simp add: domain_only_funcs_def)
  moreover have "LibCallsShrinkWrapDoDomainError default_options"
    by (simp add: default_options_def)
  ultimately obtain Bs' where
    run: "perform default_options example_TLI ?CI (example_blocks ''sqrt'') = Inr (True, Bs')"
    using perform_domain_enabled [OF callee fn args]
      wrap_and_return_true_Some [of ?CI _ "example_blocks ''sqrt''"]
    by metis
  have Bs: "example_blocks ''sqrt'' = [] @ ?B # []"
    by (simp add: example_blocks_def)
  have B: "bb_insts ?B = [OtherInstruction 10] @ Call ?CI # [OtherInstruction 11]"
    by simp
  have others: "\<forall>P \<in> set [] \<union> set []. \<forall>i \<in> set (bb_insts P). instAddr i \<noteq> ci_addr ?CI"
    by simp
  have rest: "\<forall>i \<in> set [OtherInstruction 10] \<union> set [OtherInstruction 11].
                instAddr i \<noteq> ci_addr ?CI"
    by (simp add: example_call_def)
  have fresh: "freshLabel (example_blocks ''sqrt'') = 1"
    by (simp add: freshLabel_def example_blocks_def)
  from rewrite_attaches_branch_weights [OF run Bs B others rest]
  show ?thesis
    unfolding run fresh by (simp add: numeral_2_eq_2)
qed

subsection \<open>The driver\<close>






































end
